theory Spec2Isabelle
  imports Main
begin

section \<open>Strings of the converter\<close>

text \<open>
  A Python \<^verbatim>\<open>str\<close> is modelled as a \<^typ>\<open>string\<close> whose characters are the code points
  below 256. The character classes are those of Python on that range:
  \<^verbatim>\<open>str.isspace\<close> (which is also what \<^verbatim>\<open>\s\<close> matches and what \<^verbatim>\<open>strip\<close> removes)
  and \<^verbatim>\<open>\w\<close> (alphanumeric or underscore).
\<close>

datatype py_error = IndexError | KeyError | ReError

definition NL :: char where
  "NL = CHR 0x0A"

definition is_space :: "char \<Rightarrow> bool" where
  "is_space c =
     (let n = (of_char c :: nat)
      in (9 \<le> n \<and> n \<le> 13) \<or> (28 \<le> n \<and> n \<le> 32) \<or> n = 133 \<or> n = 160)"

definition is_word :: "char \<Rightarrow> bool" where
  "is_word c =
     (let n = (of_char c :: nat)
      in (48 \<le> n \<and> n \<le> 57) \<or> (65 \<le> n \<and> n \<le> 90) \<or> n = 95 \<or> (97 \<le> n \<and> n \<le> 122)
         \<or> n = 170 \<or> n = 178 \<or> n = 179 \<or> n = 181 \<or> n = 185 \<or> n = 186
         \<or> (188 \<le> n \<and> n \<le> 190) \<or> (192 \<le> n \<and> n \<le> 214)
         \<or> (216 \<le> n \<and> n \<le> 246) \<or> (248 \<le> n \<and> n \<le> 255))"

definition is_word_dash :: "char \<Rightarrow> bool" where
  "is_word_dash c = (is_word c \<or> c = CHR ''-'')"

definition lstrip :: "string \<Rightarrow> string" where
  "lstrip s = dropWhile is_space s"

definition rstrip :: "string \<Rightarrow> string" where
  "rstrip s = rev (dropWhile is_space (rev s))"

definition strip :: "string \<Rightarrow> string" where
  "strip s = lstrip (rstrip s)"

text \<open>\<^verbatim>\<open>s.strip(chars)\<close>, \<^verbatim>\<open>s.lstrip(chars)\<close>: the characters to remove are given.\<close>

definition lstrip_chars :: "string \<Rightarrow> string \<Rightarrow> string" where
  "lstrip_chars cs s = dropWhile (\<lambda>c. c \<in> set cs) s"

definition strip_chars :: "string \<Rightarrow> string \<Rightarrow> string" where
  "strip_chars cs s = lstrip_chars cs (rev (dropWhile (\<lambda>c. c \<in> set cs) (rev s)))"

text \<open>\<^verbatim>\<open>s.split(sep)\<close> for a separator of one character: never the empty list.\<close>

fun split_on :: "char \<Rightarrow> string \<Rightarrow> string list" where
  "split_on sep [] = [[]]"
| "split_on sep (c # cs) =
     (if c = sep then [] # split_on sep cs
      else (case split_on sep cs of [] \<Rightarrow> [[c]] | w # ws \<Rightarrow> (c # w) # ws))"

fun join :: "string \<Rightarrow> string list \<Rightarrow> string" where
  "join sep [] = []"
| "join sep [x] = x"
| "join sep (x # y # ys) = x @ sep @ join sep (y # ys)"

definition startswith :: "string \<Rightarrow> string \<Rightarrow> bool" where
  "startswith s p = (take (length p) s = p)"

text \<open>
  The tail \<^verbatim>\<open>(.*)$\<close> of a pattern, tried where the greedy \<^verbatim>\<open>\s*\<close> before it stopped:
  \<^verbatim>\<open>.\<close> does not match a newline and \<^verbatim>\<open>$\<close> matches at the end or before a final newline.
  The result is the group.
\<close>

definition dot_star_end :: "string \<Rightarrow> string option" where
  "dot_star_end r =
     (if NL \<notin> set r then Some r
      else if last r = NL \<and> NL \<notin> set (butlast r) then Some (butlast r)
      else None)"

section \<open>scanner.py: the fence patterns\<close>

text \<open>
  \<^verbatim>\<open>BACKTICK_OPEN_RE = ^(\s*)(`{3,})\{(\w[\w-]*)\}\s*(.*)$\<close> and
  \<^verbatim>\<open>COLON_OPEN_RE = ^(\s*)(:{3,})\{(\w[\w-]*)\}\s*(.*)$\<close>, with the fence character
  as a parameter. The result is the four groups.
\<close>

definition open_re :: "char \<Rightarrow> string \<Rightarrow> (string \<times> string \<times> string \<times> string) option" where
  "open_re fc line =
     (let ws = takeWhile is_space line;
          r1 = dropWhile is_space line;
          fence = takeWhile (\<lambda>c. c = fc) r1;
          r2 = dropWhile (\<lambda>c. c = fc) r1
      in if length fence < 3 then None
         else (case r2 of
                 [] \<Rightarrow> None
               | b # r3 \<Rightarrow>
                   if b \<noteq> CHR ''{'' then None
                   else (case r3 of
                           [] \<Rightarrow> None
                         | w # r4 \<Rightarrow>
                             if \<not> is_word w then None
                             else (case dropWhile is_word_dash r4 of
                                     [] \<Rightarrow> None
                                   | e # r6 \<Rightarrow>
                                       if e \<noteq> CHR ''}'' then None
                                       else (case dot_star_end (dropWhile is_space r6) of
                                               None \<Rightarrow> None
                                             | Some a \<Rightarrow>
                                                 Some (ws, fence, w # takeWhile is_word_dash r4, a))))))"

definition BACKTICK_OPEN_RE :: "string \<Rightarrow> (string \<times> string \<times> string \<times> string) option" where
  "BACKTICK_OPEN_RE = open_re CHR ''`''"

definition COLON_OPEN_RE :: "string \<Rightarrow> (string \<times> string \<times> string \<times> string) option" where
  "COLON_OPEN_RE = open_re CHR '':''"

text \<open>\<^verbatim>\<open>OPTION_RE = ^:(\w[\w-]*):\s*(.*)$\<close>; the result is (key, value).\<close>

definition OPTION_RE :: "string \<Rightarrow> (string \<times> string) option" where
  "OPTION_RE s =
     (case s of
        [] \<Rightarrow> None
      | c # r1 \<Rightarrow>
          if c \<noteq> CHR '':'' then None
          else (case r1 of
                  [] \<Rightarrow> None
                | w # r2 \<Rightarrow>
                    if \<not> is_word w then None
                    else (case dropWhile is_word_dash r2 of
                            [] \<Rightarrow> None
                          | e # r4 \<Rightarrow>
                              if e \<noteq> CHR '':'' then None
                              else (case dot_star_end (dropWhile is_space r4) of
                                      None \<Rightarrow> None
                                    | Some v \<Rightarrow> Some (w # takeWhile is_word_dash r2, v)))))"

text \<open>
  The two patterns of a regular code fence,
  \<^verbatim>\<open>^(\s*)(`{3,}|~{3,})(\w*)\s*$\<close> and \<^verbatim>\<open>^(\s*)(`{3,}|~{3,})(\w+)\s*$\<close>;
  the flag says whether the language is required. The result is the three groups.
\<close>

definition regular_fence_re :: "bool \<Rightarrow> string \<Rightarrow> (string \<times> string \<times> string) option" where
  "regular_fence_re need_lang line =
     (let ws = takeWhile is_space line;
          r1 = dropWhile is_space line
      in case r1 of
           [] \<Rightarrow> None
         | fc # _ \<Rightarrow>
             if fc \<noteq> CHR ''`'' \<and> fc \<noteq> CHR ''~'' then None
             else (let fence = takeWhile (\<lambda>c. c = fc) r1;
                       r2 = dropWhile (\<lambda>c. c = fc) r1;
                       lang = takeWhile is_word r2;
                       r3 = dropWhile is_word r2
                   in if length fence < 3 then None
                      else if need_lang \<and> lang = [] then None
                      else if \<forall>c \<in> set r3. is_space c then Some (ws, fence, lang)
                      else None))"

text \<open>
  The closing pattern of a regular code fence, built from the character of the opening
  fence: \<^verbatim>\<open>^(\s*)(C{3,})\s*$\<close>. The result is the two groups.
\<close>

definition regular_close_re :: "char \<Rightarrow> string \<Rightarrow> (string \<times> string) option" where
  "regular_close_re fc line =
     (let ws = takeWhile is_space line;
          r1 = dropWhile is_space line;
          fence = takeWhile (\<lambda>c. c = fc) r1;
          r2 = dropWhile (\<lambda>c. c = fc) r1
      in if length fence < 3 then None
         else if \<forall>c \<in> set r2. is_space c then Some (ws, fence)
         else None)"

section \<open>scanner.py: frames and the scanner\<close>

record DirectiveFrame =
  name :: string
  fence_char :: char
  fence_count :: nat
  argument :: string
  options :: "(string \<times> string) list"
  body_lines :: "string list"
  indent :: nat

text \<open>
  The options are a Python dict: insertion-ordered, an assignment to a key that is present
  keeps its place.
\<close>

fun dict_set :: "(string \<times> string) list \<Rightarrow> string \<Rightarrow> string \<Rightarrow> (string \<times> string) list" where
  "dict_set [] k v = [(k, v)]"
| "dict_set ((k', v') # d) k v = (if k' = k then (k, v) # d else (k', v') # dict_set d k v)"

text \<open>\<^verbatim>\<open>d.get(k, "")\<close>\<close>

definition dict_get :: "(string \<times> string) list \<Rightarrow> string \<Rightarrow> string" where
  "dict_get d k = (case map_of d k of None \<Rightarrow> [] | Some v \<Rightarrow> v)"

definition is_close_fence :: "string \<Rightarrow> nat \<Rightarrow> DirectiveFrame \<Rightarrow> bool" where
  "is_close_fence stripped ind frame =
     (case stripped of
        [] \<Rightarrow> False
      | c # _ \<Rightarrow>
          if c \<noteq> fence_char frame then False
          else if \<not> (\<forall>c \<in> set stripped. c = fence_char frame) then False
          else if length stripped < fence_count frame then False
          else if ind > indent frame then False
          else True)"

fun strip_indent_loop :: "string \<Rightarrow> nat \<Rightarrow> nat \<Rightarrow> nat" where
  "strip_indent_loop [] ind removed = removed"
| "strip_indent_loop (ch # cs) ind removed =
     (if removed \<ge> ind then removed
      else if ch = CHR '' '' then strip_indent_loop cs ind (removed + 1)
      else if ch = CHR 0x09 then strip_indent_loop cs ind (removed + 1)
      else removed)"

definition strip_indent :: "string \<Rightarrow> nat \<Rightarrow> string" where
  "strip_indent line ind = (if ind = 0 then line else drop (strip_indent_loop line ind 0) line)"

text \<open>
  The state of \<^verbatim>\<open>Scanner.scan\<close>. The stack is kept with its top first.
  \<^verbatim>\<open>regular_fence_char\<close> is the empty string until a regular fence opens: \<open>None\<close> here.
\<close>

record scanner =
  stack :: "DirectiveFrame list"
  output_lines :: "string list"
  in_options :: bool
  in_regular_code_fence :: bool
  regular_fence_char :: "char option"
  regular_fence_count :: nat
  regular_fence_indent :: nat

definition scanner_init :: scanner where
  "scanner_init =
     \<lparr>stack = [], output_lines = [], in_options = False, in_regular_code_fence = False,
      regular_fence_char = None, regular_fence_count = 0, regular_fence_indent = 0\<rparr>"

text \<open>The opening branch of the loop: a frame is pushed.\<close>

definition open_directive ::
  "scanner \<Rightarrow> string \<times> string \<times> string \<times> string \<Rightarrow> py_error + scanner" where
  "open_directive s m =
     (case m of (leading_ws, fence_str, directive_name, arg) \<Rightarrow>
        (case fence_str of
           [] \<Rightarrow> Inl IndexError
         | fc # _ \<Rightarrow>
             Inr (s\<lparr>stack :=
                      \<lparr>name = directive_name, fence_char = fc, fence_count = length fence_str,
                       argument = strip arg, options = [], body_lines = [],
                       indent = length leading_ws\<rparr> # stack s,
                    in_options := True\<rparr>)))"

text \<open>The branch of a closing fence: the top frame is popped and transformed.\<close>

definition close_directive ::
  "(DirectiveFrame \<Rightarrow> string list) \<Rightarrow> scanner \<Rightarrow> DirectiveFrame \<Rightarrow> DirectiveFrame list \<Rightarrow> scanner" where
  "close_directive transform_fn s frame rest =
     (let transformed = transform_fn frame
      in case rest of
           parent # rest' \<Rightarrow>
             s\<lparr>stack := parent\<lparr>body_lines := body_lines parent @ transformed\<rparr> # rest',
               in_options := False\<rparr>
         | [] \<Rightarrow>
             s\<lparr>stack := [], output_lines := output_lines s @ transformed, in_options := False\<rparr>)"

text \<open>Inside a directive, no closing fence: an option line or a body line.\<close>

definition inside_directive :: "scanner \<Rightarrow> string \<Rightarrow> DirectiveFrame \<Rightarrow> DirectiveFrame list \<Rightarrow> scanner" where
  "inside_directive s line current rest =
     (let content = strip_indent line (indent current)
      in if in_options s then
           (case OPTION_RE (strip content) of
              Some (key, val) \<Rightarrow>
                s\<lparr>stack := current\<lparr>options := dict_set (options current) key (strip val)\<rparr> # rest\<rparr>
            | None \<Rightarrow>
                if strip content = [] then s\<lparr>in_options := False\<rparr>
                else s\<lparr>in_options := False,
                       stack := current\<lparr>body_lines := body_lines current @ [content]\<rparr> # rest\<rparr>)
         else s\<lparr>stack := current\<lparr>body_lines := body_lines current @ [content]\<rparr> # rest\<rparr>)"

text \<open>Outside any directive: regular code fences and regular lines.\<close>

definition open_regular_fence :: "scanner \<Rightarrow> string \<Rightarrow> string \<times> string \<times> string \<Rightarrow> py_error + scanner" where
  "open_regular_fence s line m =
     (case m of (ws, fence, lang) \<Rightarrow>
        (case fence of
           [] \<Rightarrow> Inl IndexError
         | fc # _ \<Rightarrow>
             Inr (s\<lparr>regular_fence_indent := length ws, regular_fence_char := Some fc,
                    regular_fence_count := length fence, in_regular_code_fence := True,
                    output_lines := output_lines s @ [line]\<rparr>)))"

definition regular_line :: "(string \<Rightarrow> string) option \<Rightarrow> scanner \<Rightarrow> string \<Rightarrow> scanner" where
  "regular_line inline_fn s line =
     (case inline_fn of
        Some f \<Rightarrow> s\<lparr>output_lines := output_lines s @ [f line]\<rparr>
      | None \<Rightarrow> s\<lparr>output_lines := output_lines s @ [line]\<rparr>)"

definition outside_directive :: "(string \<Rightarrow> string) option \<Rightarrow> scanner \<Rightarrow> string \<Rightarrow> py_error + scanner" where
  "outside_directive inline_fn s line =
     (if \<not> in_regular_code_fence s then
        (case regular_fence_re False line of
           Some m \<Rightarrow> open_regular_fence s line m
         | None \<Rightarrow>
             (case regular_fence_re True line of
                Some m2 \<Rightarrow> open_regular_fence s line m2
              | None \<Rightarrow> Inr (regular_line inline_fn s line)))
      else
        (case regular_fence_char s of
           None \<Rightarrow> Inl ReError
         | Some fc \<Rightarrow>
             (case regular_close_re fc line of
                Some (ws, fence) \<Rightarrow>
                  if length fence \<ge> regular_fence_count s \<and> length ws \<le> regular_fence_indent s
                  then Inr (s\<lparr>in_regular_code_fence := False, output_lines := output_lines s @ [line]\<rparr>)
                  else Inr (s\<lparr>output_lines := output_lines s @ [line]\<rparr>)
              | None \<Rightarrow> Inr (s\<lparr>output_lines := output_lines s @ [line]\<rparr>))))"

text \<open>One iteration of the loop of \<^verbatim>\<open>Scanner.scan\<close>: every branch moves to the next line.\<close>

definition scan_line ::
  "(DirectiveFrame \<Rightarrow> string list) \<Rightarrow> (string \<Rightarrow> string) option \<Rightarrow> scanner \<Rightarrow> string
     \<Rightarrow> py_error + scanner" where
  "scan_line transform_fn inline_fn s line =
     (let stripped = lstrip line;
          ind = length line - length stripped;
          open_match = (case BACKTICK_OPEN_RE line of Some m \<Rightarrow> Some m | None \<Rightarrow> COLON_OPEN_RE line)
      in case (if in_regular_code_fence s then None else open_match) of
           Some m \<Rightarrow> open_directive s m
         | None \<Rightarrow>
             (case stack s of
                current # rest \<Rightarrow>
                  if is_close_fence stripped ind current
                  then Inr (close_directive transform_fn s current rest)
                  else Inr (inside_directive s line current rest)
              | [] \<Rightarrow> outside_directive inline_fn s line))"

fun scan_lines ::
  "(DirectiveFrame \<Rightarrow> string list) \<Rightarrow> (string \<Rightarrow> string) option \<Rightarrow> scanner \<Rightarrow> string list
     \<Rightarrow> py_error + scanner" where
  "scan_lines transform_fn inline_fn s [] = Inr s"
| "scan_lines transform_fn inline_fn s (line # lines) =
     (case scan_line transform_fn inline_fn s line of
        Inl e \<Rightarrow> Inl e
      | Inr s' \<Rightarrow> scan_lines transform_fn inline_fn s' lines)"

text \<open>The loop after the last line: the frames still open are popped and transformed.\<close>

fun unclosed :: "(DirectiveFrame \<Rightarrow> string list) \<Rightarrow> DirectiveFrame list \<Rightarrow> string list \<Rightarrow> string list" where
  "unclosed transform_fn [] out = out"
| "unclosed transform_fn (frame # rest) out = unclosed transform_fn rest (out @ transform_fn frame)"

definition scan ::
  "(DirectiveFrame \<Rightarrow> string list) \<Rightarrow> (string \<Rightarrow> string) option \<Rightarrow> string \<Rightarrow> py_error + string" where
  "scan transform_fn inline_fn text =
     (case scan_lines transform_fn inline_fn scanner_init (split_on NL text) of
        Inl e \<Rightarrow> Inl e
      | Inr s \<Rightarrow> Inr (join [NL] (unclosed transform_fn (stack s) (output_lines s))))"

section \<open>Substitution of the matches of a pattern\<close>

text \<open>
  \<^verbatim>\<open>pattern.sub(repl, line)\<close>: the matches are found from left to right and do not overlap.
  A pattern is given by its matcher at a position: it sees the character before the
  position (for a lookbehind) and the rest of the line, and returns the replacement of the
  match and the length of the match minus one (no pattern of the converter matches the
  empty string).
\<close>

type_synonym matcher = "char option \<Rightarrow> string \<Rightarrow> (string \<times> nat) option"

fun re_sub :: "matcher \<Rightarrow> char option \<Rightarrow> string \<Rightarrow> string" where
  "re_sub m prev [] = []"
| "re_sub m prev (c # cs) =
     (case m prev (c # cs) of
        Some (rep, k) \<Rightarrow> rep @ re_sub m (Some (last (c # take k cs))) (drop k cs)
      | None \<Rightarrow> c # re_sub m (Some c) cs)"

section \<open>myst\_to\_quarto.py: inline roles\<close>

text \<open>
  The eight role patterns have one shape, \<^verbatim>\<open>\{role\}`([^`]+)`\<close>. The result is the group
  and the length of the match minus one.
\<close>

definition role_re :: "string \<Rightarrow> string \<Rightarrow> (string \<times> nat) option" where
  "role_re role s =
     (let p = ''{'' @ role @ ''}`''
      in if startswith s p then
           (let r = drop (length p) s;
                g = takeWhile (\<lambda>c. c \<noteq> CHR ''`'') r;
                r' = dropWhile (\<lambda>c. c \<noteq> CHR ''`'') r
            in if g = [] \<or> r' = [] then None else Some (g, length p + length g))
         else None)"

definition role_sub :: "string \<Rightarrow> (string \<Rightarrow> string) \<Rightarrow> string \<Rightarrow> string" where
  "role_sub role repl line =
     re_sub (\<lambda>prev s. case role_re role s of None \<Rightarrow> None | Some (g, k) \<Rightarrow> Some (repl g, k)) None line"

definition replace_eval :: "string \<Rightarrow> string" where
  "replace_eval g = ''`{python} '' @ g @ ''`''"

definition replace_cite_t :: "string \<Rightarrow> string" where
  "replace_cite_t g = ''@'' @ strip g"

definition replace_cite_p :: "string \<Rightarrow> string" where
  "replace_cite_p g =
     (let keys = map strip (split_on CHR '','' g)
      in case keys of
           [k] \<Rightarrow> ''[@'' @ k @ '']''
         | _ \<Rightarrow> ''['' @ join ''; '' (map (\<lambda>k. ''@'' @ k) keys) @ '']'')"

definition replace_cite :: "string \<Rightarrow> string" where
  "replace_cite g =
     (let keys = map strip (split_on CHR '','' g)
      in case keys of
           [k] \<Rightarrow> ''[@'' @ k @ '']''
         | _ \<Rightarrow> ''['' @ join ''; '' (map (\<lambda>k. ''@'' @ k) keys) @ '']'')"

text \<open>
  \<^verbatim>\<open>re.match(r".*<(.+)>$", content)\<close>: the greedy \<^verbatim>\<open>.*\<close> ends at the last \<^verbatim>\<open><\<close> that
  leaves one character or more before the final \<^verbatim>\<open>>\<close>. The result is the group.
\<close>

definition angle_re :: "string \<Rightarrow> string option" where
  "angle_re content =
     (let x = (if content \<noteq> [] \<and> last content = NL then butlast content else content)
      in if NL \<in> set x then None
         else if x = [] \<or> last x \<noteq> CHR ''>'' then None
         else (let y = butlast x;
                   pre = rev (dropWhile (\<lambda>c. c \<noteq> CHR ''<'') (rev (butlast y)))
               in if pre = [] then None else Some (drop (length pre) y)))"

definition replace_numref :: "string \<Rightarrow> string" where
  "replace_numref g =
     (let content = strip g
      in case angle_re content of
           Some a \<Rightarrow> ''@'' @ strip a
         | None \<Rightarrow> ''@'' @ content)"

definition replace_ref :: "string \<Rightarrow> string" where
  "replace_ref g = ''@'' @ strip g"

definition replace_eq :: "string \<Rightarrow> string" where
  "replace_eq g =
     (let label = strip g
      in if \<not> startswith label ''eq-'' then ''@'' @ (''eq-'' @ label) else ''@'' @ label)"

definition replace_doc :: "string \<Rightarrow> string" where
  "replace_doc g = (let path = strip g in ''['' @ path @ '']('' @ path @ ''.qmd)'')"

definition transform_inline :: "string \<Rightarrow> string" where
  "transform_inline line =
     (if line = [] then line
      else (let result = role_sub ''eval'' replace_eval line;
                result = role_sub ''cite:t'' replace_cite_t result;
                result = role_sub ''cite:p'' replace_cite_p result;
                result = role_sub ''cite'' replace_cite result;
                result = role_sub ''numref'' replace_numref result;
                result = role_sub ''ref'' replace_ref result;
                result = role_sub ''eq'' replace_eq result;
                result = role_sub ''doc'' replace_doc result
            in result))"

section \<open>myst\_to\_quarto.py: block directives\<close>

definition DQ :: string where
  "DQ = [CHR 0x22]"

definition ADMONITION_TYPES :: "string list" where
  "ADMONITION_TYPES = [''note'', ''warning'', ''tip'', ''important'', ''caution'']"

definition TAG_MAP :: "string \<Rightarrow> string option" where
  "TAG_MAP tag =
     (if tag = ''remove-cell'' then Some ''#| include: false''
      else if tag = ''remove-input'' then Some ''#| echo: false''
      else if tag = ''remove-output'' then Some ''#| output: false''
      else if tag = ''hide-input'' then Some ''#| code-fold: true''
      else None)"

definition parse_tags :: "string \<Rightarrow> string list" where
  "parse_tags tags_str =
     (let cleaned = strip_chars ''[]'' (strip tags_str)
      in map (\<lambda>t. strip_chars [CHR 0x27, CHR 0x22] (strip t))
           (filter (\<lambda>t. strip t \<noteq> []) (split_on CHR '','' cleaned)))"

definition transform_code_cell :: "DirectiveFrame \<Rightarrow> string list" where
  "transform_code_cell frame =
     (let lang = (if argument frame \<noteq> [] then strip (argument frame) else ''python'');
          lang = (if lang = ''ipython3'' then ''python'' else lang);
          lines = [''```{'' @ lang @ ''}''];
          tags = parse_tags (dict_get (options frame) ''tags'');
          lines = lines @ concat (map (\<lambda>tag. case TAG_MAP tag of
                                               Some quarto_opt \<Rightarrow> [quarto_opt]
                                             | None \<Rightarrow> []) tags);
          caption = dict_get (options frame) ''caption'';
          lines = (if caption \<noteq> [] then lines @ [''#| fig-cap: '' @ DQ @ caption @ DQ] else lines);
          lines = (if length lines > 1 then lines @ [[]] else lines)
      in lines @ body_lines frame @ [''```''])"

definition transform_figure :: "DirectiveFrame \<Rightarrow> string list" where
  "transform_figure frame =
     (let path = strip (argument frame);
          caption = join '' '' (map strip (filter (\<lambda>l. strip l \<noteq> []) (body_lines frame)));
          nm = dict_get (options frame) ''name'';
          width = dict_get (options frame) ''width'';
          attrs = (if nm \<noteq> [] then [''#'' @ nm] else [])
                  @ (if width \<noteq> [] then [''width='' @ DQ @ width @ DQ] else []);
          attr_str = (if attrs \<noteq> [] then ''{'' @ join '' '' attrs @ ''}'' else []);
          img_line = ''!['' @ caption @ '']('' @ path @ '')''
      in [if attr_str \<noteq> [] then img_line @ attr_str else img_line])"

definition transform_math :: "DirectiveFrame \<Rightarrow> string list" where
  "transform_math frame =
     (let label = dict_get (options frame) ''label''
      in [''$$''] @ body_lines frame
         @ (if label \<noteq> [] then [''$$ {#'' @ label @ ''}''] else [''$$'']))"

definition transform_admonition :: "DirectiveFrame \<Rightarrow> string \<Rightarrow> string \<Rightarrow> string list" where
  "transform_admonition frame adm_type title =
     (let header = (if title \<noteq> []
                    then ''::: {.callout-'' @ adm_type @ '' title='' @ DQ @ title @ DQ @ ''}''
                    else ''::: {.callout-'' @ adm_type @ ''}'')
      in [header] @ body_lines frame @ ['':::''])"

definition transform_tab_set :: "DirectiveFrame \<Rightarrow> string list" where
  "transform_tab_set frame = [''::: {.panel-tabset}''] @ body_lines frame @ ['':::'']"

definition transform_tab_item :: "DirectiveFrame \<Rightarrow> string list" where
  "transform_tab_item frame = [''## '' @ strip (argument frame)] @ body_lines frame"

definition transform_margin :: "DirectiveFrame \<Rightarrow> string list" where
  "transform_margin frame = [''::: {.column-margin}''] @ body_lines frame @ ['':::'']"

definition transform_image :: "DirectiveFrame \<Rightarrow> string list" where
  "transform_image frame =
     (let url = strip (argument frame);
          alt = dict_get (options frame) ''alt'';
          width = dict_get (options frame) ''width'';
          attrs = (if width \<noteq> [] then [''width='' @ DQ @ width @ DQ] else []);
          attr_str = (if attrs \<noteq> [] then ''{'' @ join '' '' attrs @ ''}'' else []);
          img_line = ''!['' @ alt @ '']('' @ url @ '')''
      in [if attr_str \<noteq> [] then img_line @ attr_str else img_line])"

definition transform_table :: "DirectiveFrame \<Rightarrow> string list" where
  "transform_table frame =
     (let caption = strip (argument frame);
          nm = dict_get (options frame) ''name''
      in body_lines frame
         @ (if nm \<noteq> [] then ['': '' @ caption @ '' {#'' @ nm @ ''}'']
            else if caption \<noteq> [] then ['': '' @ caption]
            else []))"

definition transform_mermaid :: "DirectiveFrame \<Rightarrow> string list" where
  "transform_mermaid frame = [''```{mermaid}''] @ body_lines frame @ [''```'']"

definition transform_unknown :: "DirectiveFrame \<Rightarrow> string list" where
  "transform_unknown frame =
     (let fence = replicate (fence_count frame) (fence_char frame)
      in [''<!-- WARNING: unknown MyST directive '' @ [CHR 0x27] @ name frame @ [CHR 0x27] @ '' -->'',
          fence @ ''{'' @ name frame @ ''}''
            @ (if argument frame \<noteq> [] then '' '' @ argument frame else [])]
         @ map (\<lambda>(key, val). '':'' @ key @ '': '' @ val) (options frame)
         @ (if body_lines frame \<noteq> [] then [[]] @ body_lines frame else [])
         @ [fence])"

definition transform_directive :: "DirectiveFrame \<Rightarrow> string list" where
  "transform_directive frame =
     (let nm = name frame
      in if nm = ''code-cell'' then transform_code_cell frame
         else if nm = ''figure'' then transform_figure frame
         else if nm = ''math'' then transform_math frame
         else if nm \<in> set ADMONITION_TYPES then transform_admonition frame nm []
         else if nm = ''admonition'' then transform_admonition frame ''note'' (argument frame)
         else if nm = ''bibliography'' then []
         else if nm = ''abstract'' then []
         else if nm = ''tab-set'' then transform_tab_set frame
         else if nm = ''tab-item'' then transform_tab_item frame
         else if nm = ''margin'' then transform_margin frame
         else if nm = ''image'' then transform_image frame
         else if nm = ''table'' then transform_table frame
         else if nm = ''tableofcontents'' then []
         else if nm = ''mermaid'' then transform_mermaid frame
         else transform_unknown frame)"

definition convert_myst_to_quarto :: "string \<Rightarrow> py_error + string" where
  "convert_myst_to_quarto text = scan transform_directive (Some transform_inline) text"

section \<open>quarto\_to\_myst.py: inline syntax\<close>

text \<open>
  \<^verbatim>\<open>_INLINE_CODE_RE = `\{python\}\s+([^`]+)`\<close>. The greedy \<^verbatim>\<open>\s+\<close> gives its last
  character back when nothing else is left for the group.
\<close>

definition INLINE_CODE_RE :: "string \<Rightarrow> (string \<times> nat) option" where
  "INLINE_CODE_RE s =
     (let p = ''`{python}''
      in if startswith s p then
           (let r = drop (length p) s;
                w = takeWhile is_space r;
                r1 = dropWhile is_space r;
                g = takeWhile (\<lambda>c. c \<noteq> CHR ''`'') r1;
                r2 = dropWhile (\<lambda>c. c \<noteq> CHR ''`'') r1
            in if w = [] \<or> r2 = [] then None
               else if g \<noteq> [] then Some (g, length p + length w + length g)
               else if length w \<ge> 2 then Some ([last w], length p + length w)
               else None)
         else None)"

definition replace_inline_code :: "string \<Rightarrow> string" where
  "replace_inline_code g = ''{eval}`'' @ g @ ''`''"

text \<open>
  \<^verbatim>\<open>_MULTI_CITE_RE = \[(@[\w-]+(?:;\s*@[\w-]+)+)\]\<close>. \<open>cite_items\<close> reads the repeated
  group as often as it matches and returns the number of repetitions and the rest.
\<close>

function cite_items :: "string \<Rightarrow> nat \<times> string" where
  "cite_items s =
     (case s of
        [] \<Rightarrow> (0, s)
      | c # r \<Rightarrow>
          if c \<noteq> CHR '';'' then (0, s)
          else (case dropWhile is_space r of
                  [] \<Rightarrow> (0, s)
                | a # r2 \<Rightarrow>
                    if a \<noteq> CHR ''@'' \<or> takeWhile is_word_dash r2 = [] then (0, s)
                    else (case cite_items (dropWhile is_word_dash r2) of
                            (n, rest) \<Rightarrow> (Suc n, rest))))"
  by pat_completeness auto
termination
proof (relation "measure length")
  show "wf (measure length)" by simp
next
  fix s :: string and c r a r2
  assume "s = c # r" and "dropWhile is_space r = a # r2"
  then have "length r2 < length r"
    by (metis length_dropWhile_le length_Cons less_eq_Suc_le)
  moreover have "length (dropWhile is_word_dash r2) \<le> length r2"
    by (rule length_dropWhile_le)
  ultimately show "(dropWhile is_word_dash r2, s) \<in> measure length"
    using \<open>s = c # r\<close> by simp
qed

definition MULTI_CITE_RE :: "string \<Rightarrow> (string \<times> nat) option" where
  "MULTI_CITE_RE s =
     (case s of
        b # a # r \<Rightarrow>
          if b \<noteq> CHR ''['' \<or> a \<noteq> CHR ''@'' \<or> takeWhile is_word_dash r = [] then None
          else (case cite_items (dropWhile is_word_dash r) of
                  (n, rest) \<Rightarrow>
                    (case rest of
                       [] \<Rightarrow> None
                     | e # _ \<Rightarrow>
                         if n = 0 \<or> e \<noteq> CHR '']'' then None
                         else Some (take (length (a # r) - length rest) (a # r),
                                    length (a # r) - length rest + 1)))
      | _ \<Rightarrow> None)"

definition replace_multi_cite :: "string \<Rightarrow> string" where
  "replace_multi_cite raw =
     (let keys = map (\<lambda>k. lstrip_chars ''@'' (strip k)) (split_on CHR '';'' raw)
      in ''{cite}`'' @ join '','' keys @ ''`'')"

text \<open>\<^verbatim>\<open>_SINGLE_CITE_RE = \[@([\w-]+)\]\<close>\<close>

definition SINGLE_CITE_RE :: "string \<Rightarrow> (string \<times> nat) option" where
  "SINGLE_CITE_RE s =
     (case s of
        b # a # r \<Rightarrow>
          if b \<noteq> CHR ''['' \<or> a \<noteq> CHR ''@'' \<or> takeWhile is_word_dash r = [] then None
          else (case dropWhile is_word_dash r of
                  [] \<Rightarrow> None
                | e # _ \<Rightarrow>
                    if e \<noteq> CHR '']'' then None
                    else Some (takeWhile is_word_dash r, length (takeWhile is_word_dash r) + 2))
      | _ \<Rightarrow> None)"

definition replace_single_cite :: "string \<Rightarrow> string" where
  "replace_single_cite g = ''{cite}`'' @ g @ ''`''"

text \<open>
  \<^verbatim>\<open>(?<!\w)@(PREFIX[\w-]+)(?!\w)\<close> for the prefixes \<^verbatim>\<open>fig-\<close>, \<^verbatim>\<open>eq-\<close>, \<^verbatim>\<open>tbl-\<close> and
  \<^verbatim>\<open>sec-\<close>: the character before the match is not a word character; the greedy group
  ends before a character that is no word character, so the lookahead holds there.
\<close>

definition not_after_word :: "char option \<Rightarrow> bool" where
  "not_after_word prev = (case prev of None \<Rightarrow> True | Some c \<Rightarrow> \<not> is_word c)"

definition prefixed_ref_re :: "string \<Rightarrow> char option \<Rightarrow> string \<Rightarrow> (string \<times> nat) option" where
  "prefixed_ref_re pfx prev s =
     (case s of
        [] \<Rightarrow> None
      | a # r \<Rightarrow>
          if a \<noteq> CHR ''@'' \<or> \<not> not_after_word prev \<or> \<not> startswith r pfx then None
          else (let k = takeWhile is_word_dash (drop (length pfx) r)
                in if k = [] then None else Some (pfx @ k, length pfx + length k)))"

definition replace_fig_ref :: "string \<Rightarrow> string" where
  "replace_fig_ref g = ''{numref}`'' @ g @ ''`''"

definition replace_eq_ref :: "string \<Rightarrow> string" where
  "replace_eq_ref g = ''{eq}`'' @ g @ ''`''"

definition replace_tbl_ref :: "string \<Rightarrow> string" where
  "replace_tbl_ref g = ''{ref}`'' @ g @ ''`''"

definition replace_sec_ref :: "string \<Rightarrow> string" where
  "replace_sec_ref g = ''{ref}`'' @ g @ ''`''"

text \<open>\<^verbatim>\<open>_BARE_CITE_RE = (?<!\w)@((?!fig-|eq-|tbl-|sec-)[\w][\w-]*)(?!\w)\<close>\<close>

definition BARE_CITE_RE :: "char option \<Rightarrow> string \<Rightarrow> (string \<times> nat) option" where
  "BARE_CITE_RE prev s =
     (case s of
        a # w # r \<Rightarrow>
          if a \<noteq> CHR ''@'' \<or> \<not> not_after_word prev then None
          else if startswith (w # r) ''fig-'' \<or> startswith (w # r) ''eq-''
                  \<or> startswith (w # r) ''tbl-'' \<or> startswith (w # r) ''sec-'' then None
          else if \<not> is_word w then None
          else Some (w # takeWhile is_word_dash r, length (takeWhile is_word_dash r) + 1)
      | _ \<Rightarrow> None)"

definition replace_bare_cite :: "string \<Rightarrow> string" where
  "replace_bare_cite g = ''{cite:t}`'' @ g @ ''`''"

text \<open>
  \<^verbatim>\<open>_DOC_LINK_RE = \[([^\]]+)\]\(([^\)]+\.qmd)\)\<close>. The result is the two groups, the
  whole match and the length of the match minus one.
\<close>

definition DOC_LINK_RE :: "string \<Rightarrow> (string \<times> string \<times> string \<times> nat) option" where
  "DOC_LINK_RE s =
     (case s of
        [] \<Rightarrow> None
      | b # r \<Rightarrow>
          if b \<noteq> CHR ''['' then None
          else (let t = takeWhile (\<lambda>c. c \<noteq> CHR '']'') r
                in case dropWhile (\<lambda>c. c \<noteq> CHR '']'') r of
                     e # p # r2 \<Rightarrow>
                       if t = [] \<or> p \<noteq> CHR ''('' then None
                       else (let u = takeWhile (\<lambda>c. c \<noteq> CHR '')'') r2
                             in if dropWhile (\<lambda>c. c \<noteq> CHR '')'') r2 = [] then None
                                else if length u < 5 \<or> drop (length u - 4) u \<noteq> ''.qmd'' then None
                                else Some (t, u, take (length t + length u + 4) s,
                                           length t + length u + 3))
                   | _ \<Rightarrow> None))"

text \<open>\<^verbatim>\<open>xs[-1]\<close>\<close>

definition py_last :: "'a list \<Rightarrow> py_error + 'a" where
  "py_last xs = (case xs of [] \<Rightarrow> Inl IndexError | _ # _ \<Rightarrow> Inr (last xs))"

definition replace_doc_link :: "string \<Rightarrow> string \<Rightarrow> string \<Rightarrow> py_error + string" where
  "replace_doc_link text url whole =
     (let path = take (length url - 4) url
      in if text = path then Inr (''{doc}`'' @ path @ ''`'')
         else (case py_last (split_on CHR ''/'' path) of
                 Inl e \<Rightarrow> Inl e
               | Inr base \<Rightarrow>
                   if text = base then Inr (''{doc}`'' @ path @ ''`'') else Inr whole))"

text \<open>The substitution of a pattern whose replacement function can fail.\<close>

type_synonym matcher_err = "char option \<Rightarrow> string \<Rightarrow> ((py_error + string) \<times> nat) option"

fun re_sub_err :: "matcher_err \<Rightarrow> char option \<Rightarrow> string \<Rightarrow> py_error + string" where
  "re_sub_err m prev [] = Inr []"
| "re_sub_err m prev (c # cs) =
     (case m prev (c # cs) of
        Some (Inl e, k) \<Rightarrow> Inl e
      | Some (Inr rep, k) \<Rightarrow>
          (case re_sub_err m (Some (last (c # take k cs))) (drop k cs) of
             Inl e \<Rightarrow> Inl e
           | Inr t \<Rightarrow> Inr (rep @ t))
      | None \<Rightarrow>
          (case re_sub_err m (Some c) cs of
             Inl e \<Rightarrow> Inl e
           | Inr t \<Rightarrow> Inr (c # t)))"

definition with_repl :: "(string \<Rightarrow> string) \<Rightarrow> (string \<times> nat) option \<Rightarrow> (string \<times> nat) option" where
  "with_repl repl m = (case m of None \<Rightarrow> None | Some (g, k) \<Rightarrow> Some (repl g, k))"

definition doc_link_matcher :: matcher_err where
  "doc_link_matcher prev s =
     (case DOC_LINK_RE s of
        None \<Rightarrow> None
      | Some (text, url, whole, k) \<Rightarrow> Some (replace_doc_link text url whole, k))"

definition transform_quarto_inline :: "string \<Rightarrow> py_error + string" where
  "transform_quarto_inline line =
     (if line = [] then Inr line
      else (let result = re_sub (\<lambda>prev s. with_repl replace_inline_code (INLINE_CODE_RE s)) None line;
                result = re_sub (\<lambda>prev s. with_repl replace_multi_cite (MULTI_CITE_RE s)) None result;
                result = re_sub (\<lambda>prev s. with_repl replace_single_cite (SINGLE_CITE_RE s)) None result;
                result = re_sub (\<lambda>prev s. with_repl replace_fig_ref (prefixed_ref_re ''fig-'' prev s)) None result;
                result = re_sub (\<lambda>prev s. with_repl replace_eq_ref (prefixed_ref_re ''eq-'' prev s)) None result;
                result = re_sub (\<lambda>prev s. with_repl replace_tbl_ref (prefixed_ref_re ''tbl-'' prev s)) None result;
                result = re_sub (\<lambda>prev s. with_repl replace_sec_ref (prefixed_ref_re ''sec-'' prev s)) None result;
                result = re_sub (\<lambda>prev s. with_repl replace_bare_cite (BARE_CITE_RE prev s)) None result
            in re_sub_err doc_link_matcher None result))"

section \<open>quarto\_to\_myst.py: the block patterns\<close>

text \<open>
  The tail \<^verbatim>\<open>\s+(.+)$\<close> of a pattern: the greedy \<^verbatim>\<open>\s+\<close> takes \<open>j\<close> characters, as many as
  it can and one at least, such that the rest is a non-empty group up to the end.
\<close>

definition dot_plus_end :: "string \<Rightarrow> string option" where
  "dot_plus_end r = (case dot_star_end r of None \<Rightarrow> None | Some g \<Rightarrow> if g = [] then None else Some g)"

fun spaces_dot_plus_end :: "string \<Rightarrow> nat \<Rightarrow> string option" where
  "spaces_dot_plus_end t 0 = None"
| "spaces_dot_plus_end t (Suc j) =
     (case dot_plus_end (drop (Suc j) t) of
        Some g \<Rightarrow> Some g
      | None \<Rightarrow> spaces_dot_plus_end t j)"

text \<open>\<^verbatim>\<open>_CELL_OPTION_RE = ^#\|\s+([\w-]+):\s+(.+)$\<close>; the result is (key, value).\<close>

definition CELL_OPTION_RE :: "string \<Rightarrow> (string \<times> string) option" where
  "CELL_OPTION_RE s =
     (if \<not> startswith s ''#|'' then None
      else (let r = drop 2 s;
                r1 = dropWhile is_space r;
                key = takeWhile is_word_dash r1
            in if takeWhile is_space r = [] \<or> key = [] then None
               else (case dropWhile is_word_dash r1 of
                       [] \<Rightarrow> None
                     | e # t \<Rightarrow>
                         if e \<noteq> CHR '':'' then None
                         else (case spaces_dot_plus_end t (length (takeWhile is_space t)) of
                                 None \<Rightarrow> None
                               | Some v \<Rightarrow> Some (key, v)))))"

text \<open>
  \<^verbatim>\<open>_CALLOUT_RE = ^(:{3,})\s*\{\.callout-(note|warning|tip|important|caution)\<close>
  \<^verbatim>\<open>(?:\s+title="([^"]*)")?\s*\}\<close>; the result is the fence, the type and the title group
  when it took part in the match.
\<close>

definition callout_type :: "string \<Rightarrow> (string \<times> string) option" where
  "callout_type r =
     (if startswith r ''note'' then Some (''note'', drop 4 r)
      else if startswith r ''warning'' then Some (''warning'', drop 7 r)
      else if startswith r ''tip'' then Some (''tip'', drop 3 r)
      else if startswith r ''important'' then Some (''important'', drop 9 r)
      else if startswith r ''caution'' then Some (''caution'', drop 7 r)
      else None)"

definition callout_title :: "string \<Rightarrow> (string \<times> string) option" where
  "callout_title r =
     (let r1 = dropWhile is_space r
      in if takeWhile is_space r = [] \<or> \<not> startswith r1 (''title='' @ [CHR 0x22]) then None
         else (let r2 = drop 7 r1
               in case dropWhile (\<lambda>c. c \<noteq> CHR 0x22) r2 of
                    [] \<Rightarrow> None
                  | q # r3 \<Rightarrow> Some (takeWhile (\<lambda>c. c \<noteq> CHR 0x22) r2, r3)))"

definition closes_brace :: "string \<Rightarrow> bool" where
  "closes_brace r = (case dropWhile is_space r of [] \<Rightarrow> False | c # _ \<Rightarrow> c = CHR ''}'')"

definition CALLOUT_RE :: "string \<Rightarrow> (string \<times> string \<times> string option) option" where
  "CALLOUT_RE s =
     (let fence = takeWhile (\<lambda>c. c = CHR '':'') s;
          r1 = dropWhile is_space (dropWhile (\<lambda>c. c = CHR '':'') s)
      in if length fence < 3 \<or> \<not> startswith r1 ''{.callout-'' then None
         else (case callout_type (drop 10 r1) of
                 None \<Rightarrow> None
               | Some (adm_type, r2) \<Rightarrow>
                   (case callout_title r2 of
                      Some (title, r3) \<Rightarrow>
                        if closes_brace r3 then Some (fence, adm_type, Some title) else None
                    | None \<Rightarrow>
                        if closes_brace r2 then Some (fence, adm_type, None) else None)))"

text \<open>
  \<^verbatim>\<open>_TABSET_RE = ^(:{3,})\s*\{\.panel-tabset\}\<close> and
  \<^verbatim>\<open>_MARGIN_RE = ^(:{3,})\s*\{\.column-margin\}\<close>; the result is the fence.
\<close>

definition colon_class_re :: "string \<Rightarrow> string \<Rightarrow> string option" where
  "colon_class_re cls s =
     (let fence = takeWhile (\<lambda>c. c = CHR '':'') s;
          r1 = dropWhile is_space (dropWhile (\<lambda>c. c = CHR '':'') s)
      in if length fence < 3 \<or> \<not> startswith r1 (''{.'' @ cls @ ''}'') then None
         else Some fence)"

definition TABSET_RE :: "string \<Rightarrow> string option" where
  "TABSET_RE = colon_class_re ''panel-tabset''"

definition MARGIN_RE :: "string \<Rightarrow> string option" where
  "MARGIN_RE = colon_class_re ''column-margin''"

text \<open>\<^verbatim>\<open>_EXEC_CODE_RE = ^(`{3,})\{(\w+)\}\s*$\<close>; the result is (fence, language).\<close>

definition EXEC_CODE_RE :: "string \<Rightarrow> (string \<times> string) option" where
  "EXEC_CODE_RE s =
     (let fence = takeWhile (\<lambda>c. c = CHR ''`'') s
      in if length fence < 3 then None
         else (case dropWhile (\<lambda>c. c = CHR ''`'') s of
                 [] \<Rightarrow> None
               | b # r \<Rightarrow>
                   if b \<noteq> CHR ''{'' \<or> takeWhile is_word r = [] then None
                   else (case dropWhile is_word r of
                           [] \<Rightarrow> None
                         | e # r2 \<Rightarrow>
                             if e = CHR ''}'' \<and> (\<forall>c \<in> set r2. is_space c)
                             then Some (fence, takeWhile is_word r)
                             else None)))"

text \<open>
  \<^verbatim>\<open>_COLON_CLOSE_RE = ^(:{3,})\s*$\<close> and \<^verbatim>\<open>_BACKTICK_CLOSE_RE = ^(`{3,})\s*$\<close>; the
  result is the fence.
\<close>

definition close_re :: "char \<Rightarrow> string \<Rightarrow> string option" where
  "close_re fc s =
     (let fence = takeWhile (\<lambda>c. c = fc) s
      in if length fence < 3 then None
         else if \<forall>c \<in> set (dropWhile (\<lambda>c. c = fc) s). is_space c then Some fence
         else None)"

definition COLON_CLOSE_RE :: "string \<Rightarrow> string option" where
  "COLON_CLOSE_RE = close_re CHR '':''"

definition BACKTICK_CLOSE_RE :: "string \<Rightarrow> string option" where
  "BACKTICK_CLOSE_RE = close_re CHR ''`''"

text \<open>
  \<^verbatim>\<open>_IMG_ATTRS_RE = ^!\[([^\]]*)\]\(([^)]+)\)\{([^}]+)\}\s*$\<close>; the result is
  (alt, url, attributes).
\<close>

definition IMG_ATTRS_RE :: "string \<Rightarrow> (string \<times> string \<times> string) option" where
  "IMG_ATTRS_RE s =
     (case s of
        x # b # r \<Rightarrow>
          if x \<noteq> CHR ''!'' \<or> b \<noteq> CHR ''['' then None
          else (case dropWhile (\<lambda>c. c \<noteq> CHR '']'') r of
                  e # p # r2 \<Rightarrow>
                    if p \<noteq> CHR ''('' \<or> takeWhile (\<lambda>c. c \<noteq> CHR '')'') r2 = [] then None
                    else (case dropWhile (\<lambda>c. c \<noteq> CHR '')'') r2 of
                            e2 # b2 # r3 \<Rightarrow>
                              if b2 \<noteq> CHR ''{'' \<or> takeWhile (\<lambda>c. c \<noteq> CHR ''}'') r3 = [] then None
                              else (case dropWhile (\<lambda>c. c \<noteq> CHR ''}'') r3 of
                                      [] \<Rightarrow> None
                                    | e3 # r4 \<Rightarrow>
                                        if \<forall>c \<in> set r4. is_space c
                                        then Some (takeWhile (\<lambda>c. c \<noteq> CHR '']'') r,
                                                   takeWhile (\<lambda>c. c \<noteq> CHR '')'') r2,
                                                   takeWhile (\<lambda>c. c \<noteq> CHR ''}'') r3)
                                        else None)
                          | _ \<Rightarrow> None)
                | _ \<Rightarrow> None)
      | _ \<Rightarrow> None)"

text \<open>\<^verbatim>\<open>_MATH_CLOSE_LABEL_RE = ^\$\$\s*\{#([\w-]+)\}\s*$\<close>; the result is the label.\<close>

definition MATH_CLOSE_LABEL_RE :: "string \<Rightarrow> string option" where
  "MATH_CLOSE_LABEL_RE s =
     (if \<not> startswith s ''$$'' then None
      else (case dropWhile is_space (drop 2 s) of
              b # h # r \<Rightarrow>
                if b \<noteq> CHR ''{'' \<or> h \<noteq> CHR ''#'' \<or> takeWhile is_word_dash r = [] then None
                else (case dropWhile is_word_dash r of
                        [] \<Rightarrow> None
                      | e # r2 \<Rightarrow>
                          if e = CHR ''}'' \<and> (\<forall>c \<in> set r2. is_space c)
                          then Some (takeWhile is_word_dash r)
                          else None)
            | _ \<Rightarrow> None))"

text \<open>\<^verbatim>\<open>_MATH_OPEN_RE = ^\$\$\s*$\<close>\<close>

definition MATH_OPEN_RE :: "string \<Rightarrow> bool" where
  "MATH_OPEN_RE s = (startswith s ''$$'' \<and> (\<forall>c \<in> set (drop 2 s). is_space c))"

text \<open>
  \<^verbatim>\<open>_TABLE_CAPTION_RE = ^:\s+(.+?)\s*\{#(tbl-[\w-]+)\}\s*$\<close>; the result is
  (caption, id). The line ends, up to whitespace, with the id in braces; what is between
  the colon and the brace, \<open>mid\<close>, is whitespace, the lazy group and whitespace again.
  When \<open>mid\<close> is whitespace only, the greedy \<^verbatim>\<open>\s+\<close> gives back characters until the
  group has one character that is no newline.
\<close>

definition caption_group :: "string \<Rightarrow> string option" where
  "caption_group mid =
     (if takeWhile is_space mid = [] then None
      else if dropWhile is_space mid \<noteq> [] then
        (let g = rev (dropWhile is_space (rev (dropWhile is_space mid)))
         in if NL \<in> set g then None else Some g)
      else (case filter (\<lambda>c. c \<noteq> NL) (tl mid) of
              [] \<Rightarrow> None
            | c # cs \<Rightarrow> Some [last (c # cs)]))"

definition TABLE_CAPTION_RE :: "string \<Rightarrow> (string \<times> string) option" where
  "TABLE_CAPTION_RE s =
     (case s of
        [] \<Rightarrow> None
      | c # t \<Rightarrow>
          if c \<noteq> CHR '':'' then None
          else (case dropWhile is_space (rev t) of
                  [] \<Rightarrow> None
                | e # u \<Rightarrow>
                    if e \<noteq> CHR ''}'' then None
                    else (let ident = rev (takeWhile is_word_dash u)
                          in case dropWhile is_word_dash u of
                               h # b # m \<Rightarrow>
                                 if h \<noteq> CHR ''#'' \<or> b \<noteq> CHR ''{'' then None
                                 else if \<not> startswith ident ''tbl-'' \<or> length ident < 5 then None
                                 else (case caption_group (rev m) of
                                         None \<Rightarrow> None
                                       | Some g \<Rightarrow> Some (g, ident))
                             | _ \<Rightarrow> None)))"

text \<open>\<^verbatim>\<open>_TABLE_ROW_RE = ^\|.*\|\s*$\<close>\<close>

definition TABLE_ROW_RE :: "string \<Rightarrow> bool" where
  "TABLE_ROW_RE s =
     (case s of
        [] \<Rightarrow> False
      | c # t \<Rightarrow>
          c = CHR ''|''
          \<and> (case dropWhile is_space (rev t) of
                [] \<Rightarrow> False
              | e # u \<Rightarrow> e = CHR ''|'' \<and> NL \<notin> set u))"

text \<open>\<^verbatim>\<open>re.match(r"^##\s+(.+)$", line)\<close> of \<^verbatim>\<open>_build_tab_set\<close>; the result is the group.\<close>

definition heading_re :: "string \<Rightarrow> string option" where
  "heading_re s =
     (if \<not> startswith s ''##'' then None
      else spaces_dot_plus_end (drop 2 s) (length (takeWhile is_space (drop 2 s))))"

text \<open>
  \<^verbatim>\<open>re.search(r"#([\w-]+)", attr_str)\<close> and
  \<^verbatim>\<open>re.search(r'width="?([^"\s}]+)"?', attr_str)\<close> of \<^verbatim>\<open>_parse_image_attrs\<close>: the first
  position where the pattern matches; the result is the group.
\<close>

fun search_id :: "string \<Rightarrow> string option" where
  "search_id [] = None"
| "search_id (c # cs) =
     (if c = CHR ''#'' \<and> takeWhile is_word_dash cs \<noteq> [] then Some (takeWhile is_word_dash cs)
      else search_id cs)"

definition width_char :: "char \<Rightarrow> bool" where
  "width_char c = (c \<noteq> CHR 0x22 \<and> \<not> is_space c \<and> c \<noteq> CHR ''}'')"

definition width_at :: "string \<Rightarrow> string option" where
  "width_at s =
     (if \<not> startswith s ''width='' then None
      else (let r = drop 6 s;
                r1 = (case r of [] \<Rightarrow> r | q # r' \<Rightarrow> if q = CHR 0x22 then r' else r)
            in if takeWhile width_char r1 = [] then None else Some (takeWhile width_char r1)))"

fun search_width :: "string \<Rightarrow> string option" where
  "search_width [] = None"
| "search_width (c # cs) =
     (case width_at (c # cs) of
        Some g \<Rightarrow> Some g
      | None \<Rightarrow> search_width cs)"

section \<open>quarto\_to\_myst.py: the builders\<close>

text \<open>\<^verbatim>\<open>str.lower\<close> on the code points below 256.\<close>

definition py_lower_char :: "char \<Rightarrow> char" where
  "py_lower_char c =
     (let n = (of_char c :: nat)
      in if (65 \<le> n \<and> n \<le> 90) \<or> (192 \<le> n \<and> n \<le> 222 \<and> n \<noteq> 215) then char_of (n + 32) else c)"

definition py_lower :: "string \<Rightarrow> string" where
  "py_lower s = map py_lower_char s"

definition EXEC_LANGUAGES :: "string list" where
  "EXEC_LANGUAGES =
     [''python'', ''r'', ''julia'', ''bash'', ''sh'', ''sql'', ''ojs'', ''dot'', ''mermaid'']"

definition OPTION_TO_TAG :: "string \<Rightarrow> string \<Rightarrow> string option" where
  "OPTION_TO_TAG key val =
     (if key = ''include'' \<and> val = ''false'' then Some ''remove-cell''
      else if key = ''echo'' \<and> val = ''false'' then Some ''remove-input''
      else if key = ''output'' \<and> val = ''false'' then Some ''remove-output''
      else if key = ''code-fold'' \<and> val = ''true'' then Some ''hide-input''
      else None)"

fun cell_options_loop ::
  "(string \<times> string) list \<Rightarrow> string list \<Rightarrow> (string \<times> string) list \<times> string list" where
  "cell_options_loop opts [] = (opts, [])"
| "cell_options_loop opts (line # ls) =
     (case CELL_OPTION_RE (strip line) of
        Some (k, v) \<Rightarrow> cell_options_loop (dict_set opts k (strip v)) ls
      | None \<Rightarrow> (opts, line # ls))"

definition parse_cell_options :: "string list \<Rightarrow> (string \<times> string) list \<times> string list" where
  "parse_cell_options body =
     (case cell_options_loop [] body of
        (opts, remaining) \<Rightarrow>
          (opts, case remaining of
                   [] \<Rightarrow> remaining
                 | r # rs \<Rightarrow> if strip r = [] then rs else remaining))"

fun code_cell_options :: "(string \<times> string) list \<Rightarrow> string list \<Rightarrow> string \<Rightarrow> string list \<times> string" where
  "code_cell_options [] tags caption = (tags, caption)"
| "code_cell_options ((key, val) # d) tags caption =
     (case OPTION_TO_TAG key val of
        Some tag \<Rightarrow> code_cell_options d (tags @ [tag]) caption
      | None \<Rightarrow>
          if key = ''fig-cap''
          then code_cell_options d tags (strip_chars [CHR 0x27] (strip_chars [CHR 0x22] val))
          else code_cell_options d tags caption)"

definition build_code_cell :: "string \<Rightarrow> (string \<times> string) list \<Rightarrow> string list \<Rightarrow> string list" where
  "build_code_cell lang opts body =
     (case code_cell_options opts [] [] of
        (tags, caption) \<Rightarrow>
          (let lines = [''```{code-cell} '' @ lang];
               lines = (if tags \<noteq> [] then lines @ ['':tags: '' @ (''['' @ join '', '' tags @ '']'')]
                        else lines);
               lines = (if caption \<noteq> [] then lines @ ['':caption: '' @ caption] else lines);
               lines = (if length lines > 1 then lines @ [[]] else lines)
           in lines @ body @ [''```'']))"

definition build_admonition :: "string \<Rightarrow> string \<Rightarrow> string list \<Rightarrow> string list" where
  "build_admonition adm_type title body =
     (if title \<noteq> [] then [''```{admonition} '' @ title] else [''```{'' @ adm_type @ ''}''])
     @ body @ [''```'']"

definition build_margin :: "string list \<Rightarrow> string list" where
  "build_margin body = [''```{margin}''] @ body @ [''```'']"

text \<open>The trailing blank lines of the body of a tab are removed when the tab is flushed.\<close>

definition flush_tab_item :: "string list \<Rightarrow> string \<Rightarrow> string list \<Rightarrow> string list" where
  "flush_tab_item result label body =
     result @ ['':::{tab-item} '' @ label]
       @ rev (dropWhile (\<lambda>l. strip l = []) (rev body)) @ ['':::'']"

fun tab_set_loop :: "string list \<Rightarrow> string list \<Rightarrow> string option \<Rightarrow> string list \<Rightarrow> string list" where
  "tab_set_loop [] result current_label current_body =
     (case current_label of
        Some label \<Rightarrow> flush_tab_item result label current_body
      | None \<Rightarrow> result) @ [''::::'']"
| "tab_set_loop (line # ls) result current_label current_body =
     (case heading_re line of
        Some g \<Rightarrow>
          tab_set_loop ls
            (case current_label of
               Some label \<Rightarrow> flush_tab_item result label current_body
             | None \<Rightarrow> result)
            (Some (strip g)) []
      | None \<Rightarrow> tab_set_loop ls result current_label (current_body @ [line]))"

definition build_tab_set :: "string list \<Rightarrow> string list" where
  "build_tab_set body = tab_set_loop body [''::::{tab-set}''] None []"

definition parse_image_attrs :: "string \<Rightarrow> (string \<times> string) list" where
  "parse_image_attrs attr_str =
     (case search_id attr_str of Some g \<Rightarrow> [(''id'', g)] | None \<Rightarrow> [])
     @ (case search_width attr_str of Some g \<Rightarrow> [(''width'', g)] | None \<Rightarrow> [])"

definition build_figure_directive :: "string \<Rightarrow> string \<Rightarrow> (string \<times> string) list \<Rightarrow> string list" where
  "build_figure_directive alt url attrs =
     [''```{figure} '' @ url]
     @ (case map_of attrs ''id'' of Some v \<Rightarrow> ['':name: '' @ v] | None \<Rightarrow> [])
     @ (case map_of attrs ''width'' of Some v \<Rightarrow> ['':width: '' @ v] | None \<Rightarrow> [])
     @ [[]]
     @ (if alt \<noteq> [] then [alt] else [])
     @ [''```'']"

definition build_image_directive :: "string \<Rightarrow> string \<Rightarrow> (string \<times> string) list \<Rightarrow> string list" where
  "build_image_directive alt url attrs =
     [''```{image} '' @ url]
     @ (if alt \<noteq> [] then ['':alt: '' @ alt] else [])
     @ (case map_of attrs ''width'' of Some v \<Rightarrow> ['':width: '' @ v] | None \<Rightarrow> [])
     @ [''```'']"

definition build_math_directive :: "string \<Rightarrow> string list \<Rightarrow> string list" where
  "build_math_directive label body =
     [''```{math}''] @ (if label \<noteq> [] then ['':label: '' @ label] else []) @ [[]] @ body @ [''```'']"

definition build_table_directive :: "string \<Rightarrow> string \<Rightarrow> string list \<Rightarrow> string list" where
  "build_table_directive caption nm table_lines =
     [''```{table} '' @ caption] @ (if nm \<noteq> [] then ['':name: '' @ nm] else []) @ [[]]
     @ table_lines @ [''```'']"

section \<open>quarto\_to\_myst.py: the line-oriented scanner\<close>

text \<open>The state of the loop of \<^verbatim>\<open>convert_quarto_to_myst\<close>, beside the position.\<close>

record detector =
  out_lines :: "string list"
  table_lines_buffer :: "string list"
  in_table :: bool

definition detector_init :: detector where
  "detector_init = \<lparr>out_lines = [], table_lines_buffer = [], in_table = False\<rparr>"

text \<open>
  The inner loops that collect a body up to the closing line. The closing line, when there
  is one, is skipped after the loop: \<open>Suc (length body)\<close> lines are consumed.
\<close>

fun collect_body :: "(string \<Rightarrow> bool) \<Rightarrow> string list \<Rightarrow> string list" where
  "collect_body closes [] = []"
| "collect_body closes (l # ls) = (if closes l then [] else l # collect_body closes ls)"

definition backtick_closes :: "nat \<Rightarrow> string \<Rightarrow> bool" where
  "backtick_closes opening_count l =
     (case BACKTICK_CLOSE_RE (strip l) of Some f \<Rightarrow> length f \<ge> opening_count | None \<Rightarrow> False)"

definition colon_closes :: "nat \<Rightarrow> string \<Rightarrow> bool" where
  "colon_closes opening_count l =
     (case COLON_CLOSE_RE (strip l) of Some f \<Rightarrow> length f \<ge> opening_count | None \<Rightarrow> False)"

fun collect_math :: "string list \<Rightarrow> string list \<times> string" where
  "collect_math [] = ([], [])"
| "collect_math (math_line # ls) =
     (case MATH_CLOSE_LABEL_RE (strip math_line) of
        Some label \<Rightarrow> ([], label)
      | None \<Rightarrow>
          if MATH_OPEN_RE (strip math_line) then ([], [])
          else (case collect_math ls of (body, label) \<Rightarrow> (math_line # body, label)))"

text \<open>\<^verbatim>\<open>for _ in range(n): output_lines.pop()\<close>\<close>

fun pop_n :: "nat \<Rightarrow> string list \<Rightarrow> py_error + string list" where
  "pop_n 0 out = Inr out"
| "pop_n (Suc n) out = (if out = [] then Inl IndexError else pop_n n (butlast out))"

definition emit :: "detector \<Rightarrow> string list \<Rightarrow> detector" where
  "emit st ls = st\<lparr>out_lines := out_lines st @ ls\<rparr>"

definition exec_block :: "detector \<Rightarrow> string \<Rightarrow> string \<Rightarrow> string list \<Rightarrow> detector \<times> nat" where
  "exec_block st fence_str lang rest =
     (let body = collect_body (backtick_closes (length fence_str)) rest
      in case parse_cell_options body of
           (opts, remaining_body) \<Rightarrow>
             (emit st (build_code_cell lang opts remaining_body), Suc (length body)))"

definition callout_block ::
  "detector \<Rightarrow> string \<times> string \<times> string option \<Rightarrow> string list \<Rightarrow> detector \<times> nat" where
  "callout_block st m rest =
     (case m of (fence_str, adm_type, title_group) \<Rightarrow>
        (let title = (case title_group of Some t \<Rightarrow> t | None \<Rightarrow> []);
             body = collect_body (colon_closes (length fence_str)) rest
         in (emit st (build_admonition adm_type title body), Suc (length body))))"

definition tabset_block :: "detector \<Rightarrow> string \<Rightarrow> string list \<Rightarrow> detector \<times> nat" where
  "tabset_block st fence_str rest =
     (let body = collect_body (colon_closes (length fence_str)) rest
      in (emit st (build_tab_set body), Suc (length body)))"

definition margin_block :: "detector \<Rightarrow> string \<Rightarrow> string list \<Rightarrow> detector \<times> nat" where
  "margin_block st fence_str rest =
     (let body = collect_body (colon_closes (length fence_str)) rest
      in (emit st (build_margin body), Suc (length body)))"

definition image_line :: "detector \<Rightarrow> string \<Rightarrow> string \<times> string \<times> string \<Rightarrow> py_error + detector" where
  "image_line st line m =
     (case m of (alt, url, attr_str) \<Rightarrow>
        (let attrs = parse_image_attrs attr_str
         in if (case map_of attrs ''id'' of Some v \<Rightarrow> startswith v ''fig-'' | None \<Rightarrow> False)
            then Inr (emit st (build_figure_directive alt url attrs))
            else if attrs \<noteq> [] then Inr (emit st (build_image_directive alt url attrs))
            else (case transform_quarto_inline line of
                    Inl e \<Rightarrow> Inl e
                  | Inr l \<Rightarrow> Inr (emit st [l]))))"

definition math_block :: "detector \<Rightarrow> string list \<Rightarrow> detector \<times> nat" where
  "math_block st rest =
     (case collect_math rest of
        (math_body, label) \<Rightarrow>
          (if label \<noteq> [] then emit st (build_math_directive label math_body)
           else emit st ([''$$''] @ math_body @ [''$$'']),
           Suc (length math_body)))"

definition table_caption :: "detector \<Rightarrow> string \<times> string \<Rightarrow> py_error + detector" where
  "table_caption st m =
     (case m of (g, nm) \<Rightarrow>
        (let tbl_lines = build_table_directive (strip g) nm (table_lines_buffer st)
         in case pop_n (length (table_lines_buffer st)) (out_lines st) of
              Inl e \<Rightarrow> Inl e
            | Inr out \<Rightarrow>
                Inr \<lparr>out_lines = out @ tbl_lines, table_lines_buffer = [], in_table = False\<rparr>))"

definition table_row :: "detector \<Rightarrow> string \<Rightarrow> detector" where
  "table_row st line =
     (let buf = (if \<not> in_table st then [] else table_lines_buffer st)
      in \<lparr>out_lines = out_lines st @ [line], table_lines_buffer = buf @ [line], in_table = True\<rparr>)"

definition regular_quarto_line :: "detector \<Rightarrow> string \<Rightarrow> string \<Rightarrow> py_error + detector" where
  "regular_quarto_line st line stripped =
     (let st1 = (if in_table st \<and> stripped \<noteq> []
                 then st\<lparr>in_table := False, table_lines_buffer := []\<rparr> else st)
      in case transform_quarto_inline line of
           Inl e \<Rightarrow> Inl e
         | Inr l \<Rightarrow> Inr (emit st1 [l]))"

definition rows_and_lines :: "detector \<Rightarrow> string \<Rightarrow> string \<Rightarrow> py_error + detector \<times> nat" where
  "rows_and_lines st line stripped =
     (if TABLE_ROW_RE stripped then Inr (table_row st line, 0)
      else (case regular_quarto_line st line stripped of
              Inl e \<Rightarrow> Inl e
            | Inr st' \<Rightarrow> Inr (st', 0)))"

definition exec_match :: "string \<Rightarrow> (string \<times> string) option" where
  "exec_match stripped =
     (case EXEC_CODE_RE stripped of
        Some (fence_str, lang) \<Rightarrow>
          if py_lower lang \<in> set EXEC_LANGUAGES then Some (fence_str, lang) else None
      | None \<Rightarrow> None)"

text \<open>
  One iteration of the loop: the line at the position and the lines after it. The result
  is the new state and the number of lines after the first that were consumed.
\<close>

definition dispatch_line :: "detector \<Rightarrow> string \<Rightarrow> string list \<Rightarrow> py_error + detector \<times> nat" where
  "dispatch_line st line rest =
     (let stripped = strip line
      in case exec_match stripped of
           Some (fence_str, lang) \<Rightarrow> Inr (exec_block st fence_str lang rest)
         | None \<Rightarrow>
         (case CALLOUT_RE stripped of
            Some m \<Rightarrow> Inr (callout_block st m rest)
          | None \<Rightarrow>
          (case TABSET_RE stripped of
             Some fence_str \<Rightarrow> Inr (tabset_block st fence_str rest)
           | None \<Rightarrow>
           (case MARGIN_RE stripped of
              Some fence_str \<Rightarrow> Inr (margin_block st fence_str rest)
            | None \<Rightarrow>
            (case IMG_ATTRS_RE stripped of
               Some m \<Rightarrow>
                 (case image_line st line m of Inl e \<Rightarrow> Inl e | Inr st' \<Rightarrow> Inr (st', 0))
             | None \<Rightarrow>
                 if MATH_OPEN_RE stripped then Inr (math_block st rest)
                 else (case TABLE_CAPTION_RE stripped of
                         Some m \<Rightarrow>
                           if in_table st
                           then (case table_caption st m of
                                   Inl e \<Rightarrow> Inl e
                                 | Inr st' \<Rightarrow> Inr (st', 0))
                           else rows_and_lines st line stripped
                       | None \<Rightarrow> rows_and_lines st line stripped))))))"

fun detect_loop :: "detector \<Rightarrow> string list \<Rightarrow> py_error + detector" where
  "detect_loop st [] = Inr st"
| "detect_loop st (line # rest) =
     (case dispatch_line st line rest of
        Inl e \<Rightarrow> Inl e
      | Inr (st', n) \<Rightarrow> detect_loop st' (drop n rest))"

definition convert_quarto_to_myst :: "string \<Rightarrow> py_error + string" where
  "convert_quarto_to_myst text =
     (case detect_loop detector_init (split_on NL text) of
        Inl e \<Rightarrow> Inl e
      | Inr st \<Rightarrow> Inr (join [NL] (out_lines st)))"

section \<open>Sample frames\<close>

definition note_frame :: DirectiveFrame where
  "note_frame =
     \<lparr>name = ''note'', fence_char = CHR ''`'', fence_count = 3, argument = [],
      options = [], body_lines = [''Hello.''], indent = 0\<rparr>"

section \<open>Predicates of the statements\<close>

text \<open>A line that neither opens a directive nor closes the frame \<open>f\<close>.\<close>

definition plain_line_for :: "DirectiveFrame \<Rightarrow> string \<Rightarrow> bool" where
  "plain_line_for f l \<longleftrightarrow>
     BACKTICK_OPEN_RE l = None \<and> COLON_OPEN_RE l = None
     \<and> \<not> is_close_fence (lstrip l) (length l - length (lstrip l)) f"

text \<open>A line that the scanner reads as an option of the frame \<open>f\<close> while in its options.\<close>

definition is_option_line :: "DirectiveFrame \<Rightarrow> string \<Rightarrow> bool" where
  "is_option_line f l \<longleftrightarrow> OPTION_RE (strip (strip_indent l (indent f))) \<noteq> None"

text \<open>The options recorded from a run of option lines, in their order.\<close>

fun record_options :: "nat \<Rightarrow> (string \<times> string) list \<Rightarrow> string list \<Rightarrow> (string \<times> string) list" where
  "record_options ind d [] = d"
| "record_options ind d (l # ls) =
     (case OPTION_RE (strip (strip_indent l ind)) of
        Some (k, v) \<Rightarrow> record_options ind (dict_set d k (strip v)) ls
      | None \<Rightarrow> record_options ind d ls)"

definition figure_frame :: DirectiveFrame where
  "figure_frame =
     \<lparr>name = ''figure'', fence_char = CHR ''`'', fence_count = 3, argument = ''img.png'',
      options = [], body_lines = [], indent = 0\<rparr>"

text \<open>A state of the reverse scanner with one table row buffered.\<close>

definition one_row :: detector where
  "one_row = \<lparr>out_lines = [''|a|''], table_lines_buffer = [''|a|''], in_table = True\<rparr>"






text \<open>
  The invariants of the two loops: inside a regular code fence the character of the fence
  is known, and the buffer of table rows is never longer than the output.
\<close>

definition fence_char_known :: "scanner \<Rightarrow> bool" where
  "fence_char_known s \<longleftrightarrow> (in_regular_code_fence s \<longrightarrow> regular_fence_char s \<noteq> None)"

definition buffer_within_output :: "detector \<Rightarrow> bool" where
  "buffer_within_output st \<longleftrightarrow> length (table_lines_buffer st) \<le> length (out_lines st)"

section \<open>Properties of the forward scanner\<close>

subsection \<open>Closing fences\<close>

lemma is_close_fence_iff:
  "is_close_fence stripped ind f \<longleftrightarrow>
     stripped \<noteq> [] \<and> (\<forall>c \<in> set stripped. c = fence_char f)
     \<and> fence_count f \<le> length stripped \<and> ind \<le> indent f"
  by (cases stripped) (auto simp: is_close_fence_def)

lemma rev_dropWhile_rev_id:
  "xs \<noteq> [] \<Longrightarrow> \<not> P (last xs) \<Longrightarrow> rev (dropWhile P (rev xs)) = xs"
  by (cases xs rule: rev_cases) auto

lemma lstrip_head_not_space: "lstrip s = c # r \<Longrightarrow> \<not> is_space c"
  unfolding lstrip_def by (metis hd_dropWhile list.sel(1) list.distinct(1))

lemma strip_of_uniform:
  assumes "lstrip line = replicate k c" and "0 < k"
  shows "strip line = replicate k c"
proof -
  from assms obtain k' where k: "k = Suc k'" by (cases k) auto
  with assms have hd: "lstrip line = c # replicate k' c" by simp
  then have ns: "\<not> is_space c" by (rule lstrip_head_not_space)
  have line: "line = takeWhile is_space line @ replicate k c"
    using assms(1) unfolding lstrip_def by (metis takeWhile_dropWhile_id)
  have "line \<noteq> []" using line k by auto
  moreover have "last line = c" using line k
    by (metis last_appendR last_replicate replicate_empty nat.distinct(1))
  ultimately have "rstrip line = line"
    unfolding rstrip_def using ns by (simp add: rev_dropWhile_rev_id)
  then show ?thesis using assms(1) by (simp add: strip_def)
qed

lemma inside_directive_stack_length:
  "length (stack (inside_directive s line current rest)) = length (stack s)
   \<or> length (stack (inside_directive s line current rest)) = Suc (length rest)"
  by (auto simp: inside_directive_def Let_def split: option.splits)

text \<open>
  C1. A line makes the scanner pop the top frame \<open>f\<close> (opened with fence character
  \<open>fence_char f\<close>, fence length \<open>fence_count f\<close> and indentation \<open>indent f\<close>) only if
  \<^verbatim>\<open>_is_close_fence\<close> accepts it, and then the line without its surrounding whitespace is
  that fence character repeated \<open>fence_count f\<close> times or more and the leading whitespace
  of the line is not longer than \<open>indent f\<close>. So a line with another character in it, or
  with fewer repetitions, never closes the frame.
\<close>

theorem close_fence_only_same_char_and_length:
  assumes top: "stack s = f # fs"
    and step: "scan_line transform_fn inline_fn s line = Inr s'"
    and popped: "length (stack s') < length (stack s)"
  shows "is_close_fence (lstrip line) (length line - length (lstrip line)) f
         \<and> (\<exists>k. fence_count f \<le> k \<and> strip line = replicate k (fence_char f))
         \<and> length line - length (lstrip line) \<le> indent f"
proof -
  have cf: "is_close_fence (lstrip line) (length line - length (lstrip line)) f"
  proof (rule ccontr)
    assume n: "\<not> ?thesis"
    have "length (stack s') \<ge> length (stack s)"
      using step top n inside_directive_stack_length[of s line f fs]
      by (auto simp: scan_line_def Let_def open_directive_def
               split: option.splits if_splits list.splits prod.splits)
    with popped show False by simp
  qed
  then have ne: "lstrip line \<noteq> []" and all: "\<forall>c \<in> set (lstrip line). c = fence_char f"
    and len: "fence_count f \<le> length (lstrip line)"
    and ind: "length line - length (lstrip line) \<le> indent f"
    by (simp_all add: is_close_fence_iff)
  from all have rep: "lstrip line = replicate (length (lstrip line)) (fence_char f)"
    by (simp add: replicate_length_same)
  from ne have "0 < length (lstrip line)" by simp
  with rep have "strip line = replicate (length (lstrip line)) (fence_char f)"
    by (rule strip_of_uniform)
  with cf len ind show ?thesis by blast
qed

theorem close_fence_witness:
  "is_close_fence (lstrip ''```'') (length ''```'' - length (lstrip ''```'')) note_frame
   \<and> (\<exists>k. fence_count note_frame \<le> k \<and> strip ''```'' = replicate k (fence_char note_frame))
   \<and> length ''```'' - length (lstrip ''```'') \<le> indent note_frame"
proof -
  let ?s = "scanner_init\<lparr>stack := [note_frame]\<rparr>"
  let ?s' = "scanner_init\<lparr>output_lines := transform_directive note_frame\<rparr>"
  have top: "stack ?s = note_frame # []" by simp
  have step: "scan_line transform_directive (Some transform_inline) ?s ''```'' = Inr ?s'"
    by code_simp
  have popped: "length (stack ?s') < length (stack ?s)"
    by (simp add: scanner_init_def)
  show ?thesis
    by (rule close_fence_only_same_char_and_length [OF top step popped])
qed

subsection \<open>Runs of lines inside a directive\<close>

lemma scan_lines_append:
  "scan_lines tf inline_fn s (xs @ ys) =
     (case scan_lines tf inline_fn s xs of Inl e \<Rightarrow> Inl e | Inr s' \<Rightarrow> scan_lines tf inline_fn s' ys)"
  by (induction xs arbitrary: s) (auto split: sum.splits)

lemma scan_line_plain:
  "stack s = f # fs \<Longrightarrow> plain_line_for f l \<Longrightarrow>
   scan_line tf inline_fn s l = Inr (inside_directive s l f fs)"
  by (simp add: scan_line_def plain_line_for_def)

lemma plain_line_for_cong:
  "fence_char g = fence_char f \<Longrightarrow> fence_count g = fence_count f \<Longrightarrow> indent g = indent f \<Longrightarrow>
   plain_line_for g l = plain_line_for f l"
  by (simp add: plain_line_for_def is_close_fence_iff)

lemma strip_two_lstrip:
  assumes "strip x = a # b # r"
  shows "\<exists>r'. lstrip x = a # b # r'"
proof -
  let ?y = "rstrip x"
  have "x = ?y @ rev (takeWhile is_space (rev x))"
    unfolding rstrip_def
    by (metis rev_append rev_rev_ident takeWhile_dropWhile_id)
  then obtain t where x: "x = ?y @ t" by blast
  from assms have dy: "dropWhile is_space ?y = a # b # r" by (simp add: strip_def lstrip_def)
  then have "\<exists>c \<in> set ?y. \<not> is_space c"
    by (metis dropWhile_eq_Nil_conv list.distinct(1))
  then have "dropWhile is_space (?y @ t) = dropWhile is_space ?y @ t"
    by (auto simp: dropWhile_append1)
  with x dy have "lstrip x = a # b # (r @ t)" by (simp add: lstrip_def)
  then show ?thesis by blast
qed

lemma strip_indent_loop_lstrip:
  "\<exists>j. strip_indent_loop l n r = r + j \<and> lstrip (drop j l) = lstrip l"
proof (induction l arbitrary: r)
  case Nil
  then show ?case by simp
next
  case (Cons ch cs)
  show ?case
  proof (cases "r \<ge> n \<or> (ch \<noteq> CHR '' '' \<and> ch \<noteq> CHR 0x09)")
    case True
    then have "strip_indent_loop (ch # cs) n r = r + 0" by auto
    then show ?thesis by (intro exI[of _ 0]) simp
  next
    case False
    then have sp: "is_space ch" by (auto simp: is_space_def)
    from False have "strip_indent_loop (ch # cs) n r = strip_indent_loop cs n (r + 1)" by auto
    moreover from Cons.IH[of "r + 1"] obtain j where
      j: "strip_indent_loop cs n (r + 1) = r + 1 + j" "lstrip (drop j cs) = lstrip cs" by blast
    ultimately have "strip_indent_loop (ch # cs) n r = r + Suc j" by simp
    moreover have "lstrip (drop (Suc j) (ch # cs)) = lstrip (ch # cs)"
      using j(2) sp by (simp add: lstrip_def)
    ultimately show ?thesis by blast
  qed
qed

lemma lstrip_strip_indent: "lstrip (strip_indent l n) = lstrip l"
  using strip_indent_loop_lstrip[of l n 0] by (auto simp: strip_indent_def)

lemma OPTION_RE_shape:
  "OPTION_RE s = Some kv \<Longrightarrow> \<exists>w r. s = CHR '':'' # w # r \<and> is_word w"
  by (auto simp: OPTION_RE_def split: list.splits if_splits option.splits)

lemma not_word_colon: "\<not> is_word CHR '':''"
  by (simp add: is_word_def)

lemma option_line_plain:
  assumes "is_option_line f l"
  shows "plain_line_for g l"
proof -
  from assms obtain kv where "OPTION_RE (strip (strip_indent l (indent f))) = Some kv"
    by (auto simp: is_option_line_def)
  then obtain w r where "strip (strip_indent l (indent f)) = CHR '':'' # w # r" and w: "is_word w"
    using OPTION_RE_shape by blast
  then obtain r' where "lstrip (strip_indent l (indent f)) = CHR '':'' # w # r'"
    using strip_two_lstrip by blast
  then have ls: "lstrip l = CHR '':'' # w # r'" by (simp add: lstrip_strip_indent)
  from w have wc: "w \<noteq> CHR '':''" using not_word_colon by auto
  have ls': "dropWhile is_space l = CHR '':'' # w # r'" using ls by (simp add: lstrip_def)
  have "BACKTICK_OPEN_RE l = None"
    by (simp add: BACKTICK_OPEN_RE_def open_re_def ls' Let_def)
  moreover have "COLON_OPEN_RE l = None"
    using wc by (simp add: COLON_OPEN_RE_def open_re_def ls' Let_def)
  moreover have "\<not> is_close_fence (lstrip l) (length l - length (lstrip l)) g"
    using wc by (auto simp: is_close_fence_iff ls)
  ultimately show ?thesis by (simp add: plain_line_for_def)
qed

lemma options_run:
  "stack s = f # fs \<Longrightarrow> in_options s \<Longrightarrow> \<forall>x \<in> set os. is_option_line f x \<Longrightarrow>
   scan_lines tf inline_fn s os =
     Inr (s\<lparr>stack := f\<lparr>options := record_options (indent f) (options f) os\<rparr> # fs\<rparr>)"
proof (induction os arbitrary: s f)
  case Nil
  then show ?case by simp
next
  case (Cons x os)
  from Cons.prems obtain k v where kv: "OPTION_RE (strip (strip_indent x (indent f))) = Some (k, v)"
    by (auto simp: is_option_line_def)
  let ?f1 = "f\<lparr>options := dict_set (options f) k (strip v)\<rparr>"
  let ?s1 = "s\<lparr>stack := ?f1 # fs\<rparr>"
  have "plain_line_for f x" using Cons.prems(3) by (auto intro: option_line_plain)
  then have step: "scan_line tf inline_fn s x = Inr ?s1"
    using Cons.prems kv by (simp add: scan_line_plain inside_directive_def)
  have "\<forall>x \<in> set os. is_option_line ?f1 x"
    using Cons.prems(3) by (simp add: is_option_line_def)
  then have "scan_lines tf inline_fn ?s1 os =
     Inr (?s1\<lparr>stack := ?f1\<lparr>options := record_options (indent ?f1) (options ?f1) os\<rparr> # fs\<rparr>)"
    using Cons.prems(2) by (intro Cons.IH) simp_all
  then show ?case using step kv by simp
qed

lemma body_run:
  "stack s = f # fs \<Longrightarrow> \<not> in_options s \<Longrightarrow> \<forall>b \<in> set bs. plain_line_for f b \<Longrightarrow>
   scan_lines tf inline_fn s bs =
     Inr (s\<lparr>stack := f\<lparr>body_lines := body_lines f @ map (\<lambda>b. strip_indent b (indent f)) bs\<rparr> # fs\<rparr>)"
proof (induction bs arbitrary: s f)
  case Nil
  then show ?case by simp
next
  case (Cons b bs)
  let ?f1 = "f\<lparr>body_lines := body_lines f @ [strip_indent b (indent f)]\<rparr>"
  let ?s1 = "s\<lparr>stack := ?f1 # fs\<rparr>"
  have step: "scan_line tf inline_fn s b = Inr ?s1"
    using Cons.prems by (simp add: scan_line_plain inside_directive_def)
  have "\<forall>b \<in> set bs. plain_line_for ?f1 b"
    using Cons.prems(3) by (simp add: plain_line_for_cong[of ?f1 f])
  then have "scan_lines tf inline_fn ?s1 bs =
     Inr (?s1\<lparr>stack := ?f1\<lparr>body_lines := body_lines ?f1 @ map (\<lambda>b. strip_indent b (indent ?f1)) bs\<rparr> # fs\<rparr>)"
    using Cons.prems(2) by (intro Cons.IH) simp_all
  then show ?case using step by simp
qed

subsection \<open>The options section\<close>

text \<open>
  C5, as the code has it. A blank line between option lines does end the options section:
  here the line \<^verbatim>\<open>:width: 50%\<close> follows a blank line and becomes a body line of the
  frame, not an option.
\<close>

theorem option_after_blank_line_is_body:
  "scan_lines transform_directive (Some transform_inline) scanner_init
     [''```{figure} img.png'', '':name: a'', [], '':width: 50%'']
   = Inr (scanner_init
       \<lparr>stack := [\<lparr>name = ''figure'', fence_char = CHR ''`'', fence_count = 3,
                   argument = ''img.png'', options = [(''name'', ''a'')],
                   body_lines = ['':width: 50%''], indent = 0\<rparr>],
        in_options := False\<rparr>)"
  by code_simp

text \<open>
  C5, amended. While the scanner is in the options of the top frame \<open>f\<close>, a run \<open>os\<close> of
  lines that match the option pattern is recorded in the options, in order. The first
  line \<open>e\<close> that does not match (and is no fence) ends the options section, blank or not:
  a blank one is dropped, another one is the first body line. Every later line \<open>bs\<close> of
  the frame is a body line, whether it matches the option pattern or not.
\<close>

theorem options_end_at_first_other_line:
  assumes top: "stack s = f # fs" and opt: "in_options s"
    and os: "\<forall>x \<in> set os. is_option_line f x"
    and e: "plain_line_for f e" "\<not> is_option_line f e"
    and bs: "\<forall>b \<in> set bs. plain_line_for f b"
  shows "scan_lines tf inline_fn s (os @ [e] @ bs) =
     Inr (s\<lparr>stack :=
              f\<lparr>options := record_options (indent f) (options f) os,
                body_lines := body_lines f
                  @ (if strip (strip_indent e (indent f)) = [] then [] else [strip_indent e (indent f)])
                  @ map (\<lambda>b. strip_indent b (indent f)) bs\<rparr> # fs,
            in_options := False\<rparr>)"
proof -
  let ?f1 = "f\<lparr>options := record_options (indent f) (options f) os\<rparr>"
  let ?s1 = "s\<lparr>stack := ?f1 # fs\<rparr>"
  let ?f2 = "?f1\<lparr>body_lines := body_lines f
                  @ (if strip (strip_indent e (indent f)) = [] then [] else [strip_indent e (indent f)])\<rparr>"
  let ?s2 = "s\<lparr>stack := ?f2 # fs, in_options := False\<rparr>"
  have r1: "scan_lines tf inline_fn s os = Inr ?s1"
    using top opt os by (rule options_run)
  have pe: "plain_line_for ?f1 e" using e(1) by (simp add: plain_line_for_cong[of ?f1 f])
  have none: "OPTION_RE (strip (strip_indent e (indent f))) = None"
    using e(2) unfolding is_option_line_def by blast
  have "scan_line tf inline_fn ?s1 e = Inr (inside_directive ?s1 e ?f1 fs)"
    using pe by (intro scan_line_plain) simp_all
  also have "inside_directive ?s1 e ?f1 fs = ?s2"
    using opt none by (simp add: inside_directive_def Let_def)
  finally have r2: "scan_line tf inline_fn ?s1 e = Inr ?s2" .
  have pb: "\<forall>b \<in> set bs. plain_line_for ?f2 b"
    using bs by (simp add: plain_line_for_cong[of ?f2 f])
  have r3: "scan_lines tf inline_fn ?s2 bs =
     Inr (?s2\<lparr>stack := ?f2\<lparr>body_lines := body_lines ?f2 @ map (\<lambda>b. strip_indent b (indent ?f2)) bs\<rparr> # fs\<rparr>)"
    using pb by (intro body_run) simp_all
  show ?thesis
    using r1 r2 r3 by (simp add: scan_lines_append)
qed

theorem options_end_witness:
  "scan_lines transform_directive (Some transform_inline)
     (scanner_init\<lparr>stack := [figure_frame], in_options := True\<rparr>)
     ['':name: a'', [], '':width: 50%'']
   = Inr (scanner_init
       \<lparr>stack := [figure_frame\<lparr>options := [(''name'', ''a'')], body_lines := ['':width: 50%'']\<rparr>],
        in_options := False\<rparr>)"
proof -
  let ?s = "scanner_init\<lparr>stack := [figure_frame], in_options := True\<rparr>"
  have top: "stack ?s = figure_frame # []" by simp
  have opt: "in_options ?s" by simp
  have os: "\<forall>x \<in> set ['':name: a'']. is_option_line figure_frame x" by code_simp
  have e1: "plain_line_for figure_frame []" by code_simp
  have e2: "\<not> is_option_line figure_frame []" by code_simp
  have bs: "\<forall>b \<in> set ['':width: 50%'']. plain_line_for figure_frame b" by code_simp
  have opts: "record_options (indent figure_frame) (options figure_frame) ['':name: a'']
                = [(''name'', ''a'')]"
    by code_simp
  have body: "body_lines figure_frame
        @ (if strip (strip_indent [] (indent figure_frame)) = [] then []
           else [strip_indent [] (indent figure_frame)])
        @ map (\<lambda>b. strip_indent b (indent figure_frame)) ['':width: 50%'']
      = ['':width: 50%'']"
    by code_simp
  show ?thesis
    using options_end_at_first_other_line [OF top opt os e1 e2 bs, of transform_directive
        "Some transform_inline"]
    unfolding opts body by (simp add: scanner_init_def)
qed

section \<open>Properties of the two conversions on given documents\<close>

text \<open>
  C9. The forward conversion of the three lines \<^verbatim>\<open>```{note}\<close>, \<^verbatim>\<open>Hello.\<close>, \<^verbatim>\<open>```\<close> is the
  callout of class \<^verbatim>\<open>callout-note\<close> with the body \<^verbatim>\<open>Hello.\<close>, and the reverse conversion of
  that output is the original three lines.
\<close>

theorem note_round_trip:
  "convert_myst_to_quarto (join [NL] [''```{note}'', ''Hello.'', ''```''])
     = Inr (join [NL] [''::: {.callout-note}'', ''Hello.'', '':::''])
   \<and> convert_quarto_to_myst (join [NL] [''::: {.callout-note}'', ''Hello.'', '':::''])
     = Inr (join [NL] [''```{note}'', ''Hello.'', ''```''])"
  by code_simp

text \<open>C10. Both conversions return the empty document for the empty document.\<close>

theorem convert_empty_document:
  "convert_myst_to_quarto [] = Inr [] \<and> convert_quarto_to_myst [] = Inr []"
  by code_simp

text \<open>
  C7, on the code. With a blank line between the last table row and the caption line, the
  blank line is emitted but not buffered: when the caption is dispatched the buffer is not
  the tail of the output. As many lines as the buffer has are removed from the output
  all the same: the blank line and the row \<^verbatim>\<open>|b|\<close> go, the row \<^verbatim>\<open>|a|\<close> stays before the
  table directive and is emitted twice.
\<close>

theorem caption_after_blank_line_pops_wrong_lines:
  "detect_loop detector_init [''|a|'', ''|b|'', []]
     = Inr \<lparr>out_lines = [''|a|'', ''|b|'', []], table_lines_buffer = [''|a|'', ''|b|''],
            in_table = True\<rparr>
   \<and> convert_quarto_to_myst (join [NL] [''|a|'', ''|b|'', [], '': Cap {#tbl-x}''])
     = Inr (join [NL] [''|a|'', ''```{table} Cap'', '':name: tbl-x'', [], ''|a|'', ''|b|'', ''```''])"
  by code_simp

text \<open>
  C3, on the code. At the end of the input the frames still open are popped from the top
  and transformed, and each result goes to the output: the lines of the inner frame are not
  appended to the body of the frame below it. Here the inner \<^verbatim>\<open>tip\<close> comes out before the
  outer \<^verbatim>\<open>note\<close>, and not inside it.
\<close>

theorem unclosed_nested_frames_not_nested:
  "convert_myst_to_quarto (join [NL] ['':::{note}'', ''Outer'', '':::{tip}'', ''Inner''])
     = Inr (join [NL] [''::: {.callout-tip}'', ''Inner'', '':::'',
                       ''::: {.callout-note}'', ''Outer'', '':::''])"
  by code_simp

section \<open>Properties of the reverse scanner\<close>

subsection \<open>Table captions\<close>

lemma pop_n_take: "n \<le> length xs \<Longrightarrow> pop_n n xs = Inr (take (length xs - n) xs)"
proof (induction n arbitrary: xs)
  case 0
  then show ?case by simp
next
  case (Suc n)
  then have "xs \<noteq> []" by auto
  moreover have "n \<le> length (butlast xs)" using Suc.prems by simp
  ultimately show ?case using Suc.IH[of "butlast xs"]
    by (simp add: butlast_conv_take take_take min_def)
qed

lemma TABLE_CAPTION_RE_shape:
  assumes "TABLE_CAPTION_RE s = Some (g, nm)"
  shows "\<exists>c r. s = CHR '':'' # c # r \<and> is_space c" and "startswith nm ''tbl-''" and "nm \<noteq> []"
proof -
  from assms obtain t where s: "s = CHR '':'' # t"
    by (auto simp: TABLE_CAPTION_RE_def split: list.splits if_splits)
  from assms s obtain u where u: "dropWhile is_space (rev t) = CHR ''}'' # u"
    by (auto simp: TABLE_CAPTION_RE_def split: list.splits if_splits)
  from assms s u obtain m where m: "dropWhile is_word_dash u = CHR ''#'' # CHR ''{'' # m"
    and nm: "nm = rev (takeWhile is_word_dash u)" "startswith nm ''tbl-''" "\<not> length nm < 5"
    and cg: "caption_group (rev m) = Some g"
    by (auto simp: TABLE_CAPTION_RE_def Let_def split: list.splits if_splits option.splits)
  from nm show "startswith nm ''tbl-''" and "nm \<noteq> []" by auto
  from cg have "takeWhile is_space (rev m) \<noteq> []"
    by (auto simp: caption_group_def split: if_splits)
  then obtain c m' where rm: "rev m = c # m'" and c: "is_space c"
    by (cases "rev m") (auto split: if_splits)
  have "rev t = takeWhile is_space (rev t) @ CHR ''}'' # u"
    using u by (metis takeWhile_dropWhile_id)
  moreover have "u = takeWhile is_word_dash u @ CHR ''#'' # CHR ''{'' # m"
    using m by (metis takeWhile_dropWhile_id)
  ultimately have "rev t = takeWhile is_space (rev t) @ CHR ''}'' # takeWhile is_word_dash u @ CHR ''#'' # CHR ''{'' # m"
    by simp
  then have "t = rev m @ rev (takeWhile is_space (rev t) @ CHR ''}'' # takeWhile is_word_dash u @ [CHR ''#'', CHR ''{''])"
    by (metis (no_types, lifting) append.assoc append_Cons append_Nil rev.simps(2) rev_append rev_rev_ident)
  with rm obtain r where "t = c # r" by auto
  with s c show "\<exists>c r. s = CHR '':'' # c # r \<and> is_space c" by blast
qed

lemma colon_space_not_block:
  assumes "s = CHR '':'' # c # r" and "is_space c"
  shows "exec_match s = None" "CALLOUT_RE s = None" "TABSET_RE s = None" "MARGIN_RE s = None"
    "IMG_ATTRS_RE s = None" "\<not> MATH_OPEN_RE s" "\<not> TABLE_ROW_RE s"
proof -
  have c: "c \<noteq> CHR '':''" using assms(2) by (auto simp: is_space_def)
  show "exec_match s = None" using assms(1) by (simp add: exec_match_def EXEC_CODE_RE_def)
  show "CALLOUT_RE s = None" using assms(1) c by (simp add: CALLOUT_RE_def)
  show "TABSET_RE s = None" using assms(1) c by (simp add: TABSET_RE_def colon_class_re_def)
  show "MARGIN_RE s = None" using assms(1) c by (simp add: MARGIN_RE_def colon_class_re_def)
  show "IMG_ATTRS_RE s = None" using assms(1) by (simp add: IMG_ATTRS_RE_def)
  show "\<not> MATH_OPEN_RE s" using assms(1) by (simp add: MATH_OPEN_RE_def startswith_def)
  show "\<not> TABLE_ROW_RE s" using assms(1) by (simp add: TABLE_ROW_RE_def)
qed

text \<open>
  C8, as the code has it. The caption pattern requires an id with the prefix \<^verbatim>\<open>tbl-\<close>:
  after a buffered row, a caption line whose id lacks the prefix and a caption line
  without id are not wrapped; the rows and the line come out as they are.
\<close>

theorem caption_without_table_id_not_wrapped:
  "convert_quarto_to_myst (join [NL] [''|a|'', '': Cap {#foo}''])
     = Inr (join [NL] [''|a|'', '': Cap {#foo}''])
   \<and> convert_quarto_to_myst (join [NL] [''|a|'', '': Cap''])
     = Inr (join [NL] [''|a|'', '': Cap''])"
  by code_simp

text \<open>
  C8, amended. While table rows are buffered, a caption line whose id carries the prefix
  \<^verbatim>\<open>tbl-\<close> replaces as many lines of the end of the output as the buffer has by a table
  directive with the caption, the name option set to that id, a blank line, the buffered
  rows and the closing fence. A line of the shape of a caption (a colon, then whitespace)
  that the caption pattern does not match, because its id lacks the prefix or it has no id,
  is not wrapped: it goes through the inline rewriter as a regular line and ends the
  buffering.
\<close>

theorem caption_wraps_only_with_table_id:
  assumes tbl: "in_table st"
    and len: "length (table_lines_buffer st) \<le> length (out_lines st)"
  shows "(TABLE_CAPTION_RE (strip line) = Some (g, nm) \<longrightarrow>
            startswith nm ''tbl-''
            \<and> dispatch_line st line rest =
                Inr (\<lparr>out_lines =
                        take (length (out_lines st) - length (table_lines_buffer st)) (out_lines st)
                        @ [''```{table} '' @ strip g, '':name: '' @ nm, []]
                        @ table_lines_buffer st @ [''```''],
                      table_lines_buffer = [], in_table = False\<rparr>, 0))
         \<and> (TABLE_CAPTION_RE (strip line) = None \<and> strip line = CHR '':'' # c # r \<and> is_space c \<longrightarrow>
              dispatch_line st line rest =
                (case transform_quarto_inline line of
                   Inl e \<Rightarrow> Inl e
                 | Inr l \<Rightarrow>
                     Inr (\<lparr>out_lines = out_lines st @ [l], table_lines_buffer = [],
                           in_table = False\<rparr>, 0)))"
proof (intro conjI impI)
  assume m: "TABLE_CAPTION_RE (strip line) = Some (g, nm)"
  from TABLE_CAPTION_RE_shape[OF m] obtain c' r' where
    shape: "strip line = CHR '':'' # c' # r'" "is_space c'" and pre: "startswith nm ''tbl-''"
    and ne: "nm \<noteq> []" by blast
  show "startswith nm ''tbl-''" by (rule pre)
  note nb = colon_space_not_block[OF shape]
  show "dispatch_line st line rest =
                Inr (\<lparr>out_lines =
                        take (length (out_lines st) - length (table_lines_buffer st)) (out_lines st)
                        @ [''```{table} '' @ strip g, '':name: '' @ nm, []]
                        @ table_lines_buffer st @ [''```''],
                      table_lines_buffer = [], in_table = False\<rparr>, 0)"
    using nb m tbl ne pop_n_take[OF len]
    by (simp add: dispatch_line_def table_caption_def build_table_directive_def)
next
  assume a: "TABLE_CAPTION_RE (strip line) = None \<and> strip line = CHR '':'' # c # r \<and> is_space c"
  then have shape: "strip line = CHR '':'' # c # r" "is_space c" by simp_all
  note nb = colon_space_not_block[OF shape]
  from a have none: "TABLE_CAPTION_RE (CHR '':'' # c # r) = None" by metis
  show "dispatch_line st line rest =
                (case transform_quarto_inline line of
                   Inl e \<Rightarrow> Inl e
                 | Inr l \<Rightarrow>
                     Inr (\<lparr>out_lines = out_lines st @ [l], table_lines_buffer = [],
                           in_table = False\<rparr>, 0))"
    using nb none shape(1) tbl
    by (simp add: dispatch_line_def rows_and_lines_def regular_quarto_line_def emit_def Let_def
             split: sum.splits)
qed

theorem caption_wraps_witness:
  "dispatch_line one_row '': Cap {#tbl-x}'' []
     = Inr (\<lparr>out_lines = [''```{table} Cap'', '':name: tbl-x'', [], ''|a|'', ''```''],
             table_lines_buffer = [], in_table = False\<rparr>, 0)
   \<and> dispatch_line one_row '': Cap {#foo}'' []
     = Inr (\<lparr>out_lines = [''|a|'', '': Cap {#foo}''], table_lines_buffer = [],
             in_table = False\<rparr>, 0)"
proof -
  have tbl: "in_table one_row" by (simp add: one_row_def)
  have len: "length (table_lines_buffer one_row) \<le> length (out_lines one_row)"
    by (simp add: one_row_def)
  have m: "TABLE_CAPTION_RE (strip '': Cap {#tbl-x}'') = Some (''Cap'', ''tbl-x'')"
    by code_simp
  have n: "TABLE_CAPTION_RE (strip '': Cap {#foo}'') = None
           \<and> strip '': Cap {#foo}'' = CHR '':'' # CHR '' '' # ''Cap {#foo}'' \<and> is_space CHR '' ''"
    by code_simp
  have v1: "take (length (out_lines one_row) - length (table_lines_buffer one_row)) (out_lines one_row)
              @ [''```{table} '' @ strip ''Cap'', '':name: '' @ ''tbl-x'', []]
              @ table_lines_buffer one_row @ [''```'']
            = [''```{table} Cap'', '':name: tbl-x'', [], ''|a|'', ''```'']"
    by code_simp
  have v2: "transform_quarto_inline '': Cap {#foo}'' = Inr '': Cap {#foo}''"
    by code_simp
  have o: "out_lines one_row = [''|a|'']" by (simp add: one_row_def)
  note t1 = caption_wraps_only_with_table_id [OF tbl len, where line = "'': Cap {#tbl-x}''"
      and g = "''Cap''" and nm = "''tbl-x''" and rest = "[]",
      THEN conjunct1, THEN mp, OF m, THEN conjunct2]
  have r1: "dispatch_line one_row '': Cap {#tbl-x}'' []
     = Inr (\<lparr>out_lines = [''```{table} Cap'', '':name: tbl-x'', [], ''|a|'', ''```''],
             table_lines_buffer = [], in_table = False\<rparr>, 0)"
    using t1 unfolding v1 .
  note t2 = caption_wraps_only_with_table_id [OF tbl len, where line = "'': Cap {#foo}''"
      and rest = "[]" and c = "CHR '' ''" and r = "''Cap {#foo}''",
      THEN conjunct2, THEN mp, OF n]
  have r2: "dispatch_line one_row '': Cap {#foo}'' []
     = Inr (\<lparr>out_lines = [''|a|'', '': Cap {#foo}''], table_lines_buffer = [],
             in_table = False\<rparr>, 0)"
    using t2 unfolding v2 o by simp
  from r1 r2 show ?thesis by blast
qed


section \<open>Regular code fences\<close>

lemma regular_fence_re_shape:
  assumes "regular_fence_re b line = Some (ws, fence, lang)"
  shows "fence \<noteq> []" "BACKTICK_OPEN_RE line = None" "COLON_OPEN_RE line = None"
    "ws = takeWhile is_space line"
proof -
  from assms obtain fc r where r1: "dropWhile is_space line = fc # r"
    and fc: "fc = CHR ''`'' \<or> fc = CHR ''~''"
    by (auto simp: regular_fence_re_def Let_def split: list.splits if_splits)
  let ?r1 = "fc # r"
  from assms r1 fc have fence: "fence = takeWhile (\<lambda>c. c = fc) ?r1" and len: "\<not> length fence < 3"
    and rest: "\<forall>c \<in> set (dropWhile is_word (dropWhile (\<lambda>c. c = fc) ?r1)). is_space c"
    and ws: "ws = takeWhile is_space line"
    by (auto simp: regular_fence_re_def Let_def split: list.splits if_splits)
  from len show "fence \<noteq> []" by auto
  show "ws = takeWhile is_space line" by (rule ws)
  have nb: "\<not> is_word CHR ''{''" "\<not> is_space CHR ''{''" by (simp_all add: is_word_def is_space_def)
  have "dropWhile (\<lambda>c. c = fc) ?r1 = [] \<or> hd (dropWhile (\<lambda>c. c = fc) ?r1) \<noteq> CHR ''{''"
  proof (cases "dropWhile (\<lambda>c. c = fc) ?r1")
    case Nil
    then show ?thesis by simp
  next
    case (Cons x xs)
    show ?thesis
    proof (cases "is_word x")
      case True
      then show ?thesis using Cons nb by auto
    next
      case False
      then have "dropWhile is_word (x # xs) = x # xs" by simp
      with rest Cons have "is_space x" by simp
      then show ?thesis using Cons nb by auto
    qed
  qed
  then have nobrace: "\<And>b r3. dropWhile (\<lambda>c. c = fc) ?r1 = b # r3 \<Longrightarrow> b \<noteq> CHR ''{''"
    by auto
  show "BACKTICK_OPEN_RE line = None"
  proof (cases "fc = CHR ''`''")
    case True
    then show ?thesis using nobrace
      by (auto simp: BACKTICK_OPEN_RE_def open_re_def r1 Let_def split: list.splits)
  next
    case False
    then show ?thesis by (simp add: BACKTICK_OPEN_RE_def open_re_def r1 Let_def)
  qed
  show "COLON_OPEN_RE line = None"
    using fc by (auto simp: COLON_OPEN_RE_def open_re_def r1 Let_def)
qed







section \<open>Nested directives\<close>










section \<open>Both conversions return\<close>

text \<open>
  The places of the code that could raise are branches of the model: the first character
  of a matched fence, the closing pattern built from the character of the regular fence,
  the last component of a split path, and the removal of lines from the output. None of
  them is reached with a failing argument.
\<close>

lemma open_re_fence:
  "open_re c l = Some (ws, fence, nm, a) \<Longrightarrow> fence \<noteq> []"
  by (auto simp: open_re_def Let_def split: if_splits list.splits option.splits)

lemma open_directive_ok:
  assumes "fence_char_known s" "open_re c l = Some m"
  shows "\<exists>s'. open_directive s m = Inr s' \<and> fence_char_known s'"
proof -
  obtain ws fence nm a where m: "m = (ws, fence, nm, a)" by (cases m) auto
  with assms(2) have "fence \<noteq> []" using open_re_fence by blast
  then obtain fc fr where "fence = fc # fr" by (cases fence) auto
  with m assms(1) show ?thesis by (simp add: open_directive_def fence_char_known_def)
qed

lemma close_directive_known:
  "fence_char_known s \<Longrightarrow> fence_char_known (close_directive tf s f fs)"
  by (simp add: close_directive_def fence_char_known_def Let_def split: list.splits)

lemma inside_directive_known:
  "fence_char_known s \<Longrightarrow> fence_char_known (inside_directive s l f fs)"
  by (simp add: inside_directive_def fence_char_known_def Let_def split: option.splits)

lemma open_regular_fence_ok:
  assumes "regular_fence_re b l = Some m"
  shows "\<exists>s'. open_regular_fence s l m = Inr s' \<and> fence_char_known s'"
proof -
  obtain ws fence lang where m: "m = (ws, fence, lang)" by (cases m) auto
  with assms have "fence \<noteq> []" using regular_fence_re_shape(1) by blast
  then obtain fc fr where "fence = fc # fr" by (cases fence) auto
  with m show ?thesis by (simp add: open_regular_fence_def fence_char_known_def)
qed

lemma outside_directive_ok:
  assumes "fence_char_known s"
  shows "\<exists>s'. outside_directive inline_fn s l = Inr s' \<and> fence_char_known s'"
proof (cases "in_regular_code_fence s")
  case False
  show ?thesis
  proof (cases "regular_fence_re False l")
    case (Some m)
    then show ?thesis using False open_regular_fence_ok[OF Some]
      by (simp add: outside_directive_def)
  next
    case None
    show ?thesis
    proof (cases "regular_fence_re True l")
      case (Some m2)
      then show ?thesis using False None open_regular_fence_ok[OF Some]
        by (simp add: outside_directive_def)
    next
      case None2: None
      then show ?thesis using False None assms
        by (simp add: outside_directive_def regular_line_def fence_char_known_def
                 split: option.splits)
    qed
  qed
next
  case True
  with assms obtain fc where "regular_fence_char s = Some fc"
    by (auto simp: fence_char_known_def)
  then show ?thesis using True
    by (auto simp: outside_directive_def fence_char_known_def split: option.splits)
qed

lemma scan_line_ok:
  assumes "fence_char_known s"
  shows "\<exists>s'. scan_line tf inline_fn s l = Inr s' \<and> fence_char_known s'"
proof -
  let ?om = "case BACKTICK_OPEN_RE l of Some m \<Rightarrow> Some m | None \<Rightarrow> COLON_OPEN_RE l"
  show ?thesis
  proof (cases "if in_regular_code_fence s then None else ?om")
    case (Some m)
    then have "\<exists>c. open_re c l = Some m"
      by (auto simp: BACKTICK_OPEN_RE_def COLON_OPEN_RE_def split: if_splits option.splits)
    then obtain c where "open_re c l = Some m" by blast
    from open_directive_ok[OF assms this] show ?thesis
      using Some by (simp add: scan_line_def Let_def)
  next
    case None
    show ?thesis
    proof (cases "stack s")
      case Nil
      then show ?thesis using None outside_directive_ok[OF assms]
        by (simp add: scan_line_def Let_def)
    next
      case (Cons f fs)
      then show ?thesis
        using None close_directive_known[OF assms] inside_directive_known[OF assms]
        by (simp add: scan_line_def Let_def)
    qed
  qed
qed

lemma scan_lines_ok:
  "fence_char_known s \<Longrightarrow> \<exists>s'. scan_lines tf inline_fn s ls = Inr s'"
proof (induction ls arbitrary: s)
  case Nil
  then show ?case by simp
next
  case (Cons l ls)
  from scan_line_ok[OF Cons.prems] obtain s1 where
    "scan_line tf inline_fn s l = Inr s1" "fence_char_known s1" by blast
  then show ?case using Cons.IH[of s1] by simp
qed

lemma convert_myst_to_quarto_ok: "\<exists>out. convert_myst_to_quarto text = Inr out"
proof -
  have "fence_char_known scanner_init" by (simp add: fence_char_known_def scanner_init_def)
  from scan_lines_ok[OF this] obtain s' where
    "scan_lines transform_directive (Some transform_inline) scanner_init (split_on NL text) = Inr s'"
    by blast
  then show ?thesis by (simp add: convert_myst_to_quarto_def scan_def)
qed

lemma split_on_not_Nil: "split_on sep s \<noteq> []"
  by (induction s) (auto split: list.splits)

lemma replace_doc_link_ok: "\<exists>r. replace_doc_link t u w = Inr r"
proof -
  obtain x xs where "split_on CHR ''/'' (take (length u - 4) u) = x # xs"
    using split_on_not_Nil by (cases "split_on CHR ''/'' (take (length u - 4) u)") auto
  then show ?thesis by (simp add: replace_doc_link_def py_last_def Let_def)
qed

lemma re_sub_err_ok:
  "(\<And>prev s r k. m prev s = Some (r, k) \<Longrightarrow> \<exists>x. r = Inr x) \<Longrightarrow>
   \<exists>t. re_sub_err m prev s = Inr t"
proof (induction m prev s rule: re_sub_err.induct)
  case (1 m prev)
  then show ?case by simp
next
  case (2 m prev c cs)
  show ?case
  proof (cases "m prev (c # cs)")
    case None
    from "2.IH"(1)[OF None] "2.prems" obtain t where "re_sub_err m (Some c) cs = Inr t"
      by blast
    then show ?thesis using None by simp
  next
    case (Some rk)
    obtain r k where rk: "rk = (r, k)" by (cases rk) auto
    with Some "2.prems" obtain x where x: "r = Inr x" by blast
    from "2.IH"(2)[OF Some rk[symmetric] x] "2.prems" obtain t where
      "re_sub_err m (Some (last (c # take k cs))) (drop k cs) = Inr t" by blast
    then show ?thesis using Some rk x by simp
  qed
qed

lemma transform_quarto_inline_ok: "\<exists>r. transform_quarto_inline l = Inr r"
proof -
  have "\<And>prev s r k. doc_link_matcher prev s = Some (r, k) \<Longrightarrow> \<exists>x. r = Inr x"
    using replace_doc_link_ok
    by (auto simp: doc_link_matcher_def split: option.splits)
  from re_sub_err_ok[of doc_link_matcher, OF this] show ?thesis
    by (simp add: transform_quarto_inline_def Let_def)
qed

lemma emit_within:
  "buffer_within_output st \<Longrightarrow> buffer_within_output (emit st ls)"
  by (simp add: buffer_within_output_def emit_def)

lemma image_line_ok:
  assumes "buffer_within_output st"
  shows "\<exists>st'. image_line st line m = Inr st' \<and> buffer_within_output st'"
proof -
  obtain alt url attr_str where m: "m = (alt, url, attr_str)" by (cases m) auto
  obtain l where "transform_quarto_inline line = Inr l" using transform_quarto_inline_ok by blast
  then show ?thesis using m emit_within[OF assms]
    by (simp add: image_line_def Let_def)
qed

lemma table_caption_ok:
  assumes "buffer_within_output st"
  shows "\<exists>st'. table_caption st m = Inr st' \<and> buffer_within_output st'"
proof -
  obtain g nm where m: "m = (g, nm)" by (cases m) auto
  from assms have "length (table_lines_buffer st) \<le> length (out_lines st)"
    by (simp add: buffer_within_output_def)
  from pop_n_take[OF this] show ?thesis using m
    by (simp add: table_caption_def Let_def buffer_within_output_def)
qed

lemma rows_and_lines_ok:
  assumes "buffer_within_output st"
  shows "\<exists>st' n. rows_and_lines st line stripped = Inr (st', n) \<and> buffer_within_output st'"
proof -
  obtain l where l: "transform_quarto_inline line = Inr l" using transform_quarto_inline_ok by blast
  show ?thesis
  proof (cases "TABLE_ROW_RE stripped")
    case True
    then show ?thesis using assms
      by (simp add: rows_and_lines_def table_row_def buffer_within_output_def Let_def)
  next
    case False
    then show ?thesis using assms l
      by (simp add: rows_and_lines_def regular_quarto_line_def buffer_within_output_def
               emit_def Let_def)
  qed
qed

lemma block_within:
  assumes "buffer_within_output st"
  shows "buffer_within_output (fst (exec_block st fence_str lang rest))"
    "buffer_within_output (fst (callout_block st m rest))"
    "buffer_within_output (fst (tabset_block st fence_str rest))"
    "buffer_within_output (fst (margin_block st fence_str rest))"
    "buffer_within_output (fst (math_block st rest))"
  using emit_within[OF assms]
  by (simp_all add: exec_block_def callout_block_def tabset_block_def margin_block_def
        math_block_def Let_def split: prod.splits)

lemma dispatch_line_ok:
  assumes "buffer_within_output st"
  shows "\<exists>st' n. dispatch_line st line rest = Inr (st', n) \<and> buffer_within_output st'"
proof -
  note bw = block_within[OF assms]
  let ?s = "strip line"
  have via: "\<And>p. buffer_within_output (fst p) \<Longrightarrow>
               \<exists>st' n. Inr p = (Inr (st', n) :: py_error + detector \<times> nat) \<and> buffer_within_output st'"
    by (metis prod.collapse)
  show ?thesis
  proof (cases "exec_match ?s")
    case (Some a)
    obtain fs lg where a: "a = (fs, lg)" by (cases a) auto
    show ?thesis using Some a via[OF bw(1), of fs lg rest]
      by (simp add: dispatch_line_def Let_def)
  next
    case ex: None
    show ?thesis
    proof (cases "CALLOUT_RE ?s")
      case (Some a)
      then show ?thesis using ex via[OF bw(2)] by (simp add: dispatch_line_def Let_def)
    next
      case co: None
      show ?thesis
      proof (cases "TABSET_RE ?s")
        case (Some a)
        then show ?thesis using ex co via[OF bw(3)] by (simp add: dispatch_line_def Let_def)
      next
        case ta: None
        show ?thesis
        proof (cases "MARGIN_RE ?s")
          case (Some a)
          then show ?thesis using ex co ta via[OF bw(4)] by (simp add: dispatch_line_def Let_def)
        next
          case ma: None
          show ?thesis
          proof (cases "IMG_ATTRS_RE ?s")
            case (Some a)
            from image_line_ok[OF assms, of line a] obtain st' where
              "image_line st line a = Inr st'" "buffer_within_output st'" by blast
            then show ?thesis using ex co ta ma Some by (simp add: dispatch_line_def Let_def)
          next
            case im: None
            show ?thesis
            proof (cases "MATH_OPEN_RE ?s")
              case True
              then show ?thesis using ex co ta ma im via[OF bw(5)]
                by (simp add: dispatch_line_def Let_def)
            next
              case mo: False
              show ?thesis
              proof (cases "TABLE_CAPTION_RE ?s")
                case None
                then show ?thesis using ex co ta ma im mo rows_and_lines_ok[OF assms]
                  by (simp add: dispatch_line_def Let_def)
              next
                case (Some a)
                show ?thesis
                proof (cases "in_table st")
                  case True
                  from table_caption_ok[OF assms, of a] obtain st' where
                    "table_caption st a = Inr st'" "buffer_within_output st'" by blast
                  then show ?thesis using ex co ta ma im mo Some True
                    by (simp add: dispatch_line_def Let_def)
                next
                  case False
                  then show ?thesis using ex co ta ma im mo Some rows_and_lines_ok[OF assms]
                    by (simp add: dispatch_line_def Let_def)
                qed
              qed
            qed
          qed
        qed
      qed
    qed
  qed
qed

lemma detect_loop_ok:
  "buffer_within_output st \<Longrightarrow> \<exists>st'. detect_loop st ls = Inr st'"
proof (induction st ls rule: detect_loop.induct)
  case (1 st)
  then show ?case by simp
next
  case (2 st line rest)
  from dispatch_line_ok[OF "2.prems"] obtain st' n where
    d: "dispatch_line st line rest = Inr (st', n)" and b: "buffer_within_output st'" by blast
  from "2.IH"[OF d refl b] show ?case using d by simp
qed

lemma convert_quarto_to_myst_ok: "\<exists>out. convert_quarto_to_myst text = Inr out"
proof -
  have "buffer_within_output detector_init"
    by (simp add: buffer_within_output_def detector_init_def)
  from detect_loop_ok[OF this] obtain st' where
    "detect_loop detector_init (split_on NL text) = Inr st'" by blast
  then show ?thesis by (simp add: convert_quarto_to_myst_def)
qed

text \<open>
  C4. For every input string each of the two conversions returns a string: the loops of
  the model are total functions, and no branch of an exception is taken, whatever the
  markup (fences that are never closed, lines that are no options, captions without a
  table).
\<close>

theorem conversions_return_a_string:
  "(\<exists>out. convert_myst_to_quarto text = Inr out) \<and> (\<exists>out. convert_quarto_to_myst text = Inr out)"
  using convert_myst_to_quarto_ok convert_quarto_to_myst_ok by blast


end
